theory Spec2Isabelle
  imports Main
begin

section \<open>Data model (convex/schema.ts)\<close>

text \<open>
  Document ids are opaque and assigned by the store on insert; they are modelled as
  natural numbers. A JavaScript string is modelled as a \<open>string\<close> (its code units, each
  below 256), its \<open>length\<close> as the length of the list and \<open>substring(0, n)\<close> as
  \<open>take n\<close>. An optional field is an
  \<open>option\<close>. \<open>Date.now()\<close> is an input of the mutation that reads it.
\<close>

type_synonym userId = nat
type_synonym conversationId = nat
type_synonym messageId = nat
type_synonym storageId = nat

datatype author = User | Assistant

datatype status = Typing | Completed | Error

datatype thinkingIntensity = Low | Medium | High

datatype citation =
    FileCitation (fileId: string) (citedFileName: string)
  | UrlCitation (url: string) (title: string)

record uploadedFile =
  uf_fileName :: string
  uf_storageId :: storageId
  uf_fileType :: string
  uf_fileSize :: nat

record conversation =
  userId :: userId
  name :: string
  lastResponseId :: "string option"
  vectorStoreId :: "string option"
  updatedTime :: "nat option"

record message =
  conversationId :: conversationId
  author :: author
  content :: string
  status :: "status option"
  fileIds :: "string list option"
  uploadedFileNames :: "string list option"
  uploadedFiles :: "uploadedFile list option"
  openaiResponseId :: "string option"
  vectorStoreFileIds :: "string list option"
  webSearchEnabled :: "bool option"
  model :: "string option"
  thinkingIntensity :: "thinkingIntensity option"
  citations :: "citation list option"
  reasoningSummary :: "string option"
  timezone :: "string option"

text \<open>The only \<open>fileType\<close> of the schema is \<open>"user_upload"\<close>.\<close>

datatype fileType = UserUpload

record fileMessageMapping =
  openaiFileId :: string
  fileName :: string
  fileType :: fileType
  uploadedBy :: "userId option"
  storageId :: "storageId option"
  firstUsedInConversationId :: "conversationId option"
  firstUsedInMessageId :: "messageId option"
  fileMimeType :: "string option"
  fileSize :: "nat option"
  uploadedAt :: nat

text \<open>Every \<open>throw\<close> of the modelled functions is a value of this type.\<close>

datatype error =
    UserNotAuthenticated
  | UserNotFound
  | NotFound
  | ConversationNotFoundOrAccessDenied
  | ConversationAccessDenied
  | FileAccessDenied
  | UnsupportedModel string
  | ThinkingIntensityNotAllowed
  | TooManyFiles nat
  | AllFilesFailed
  | NotUnique
  | PatchOfMissingDocument
  | ArgumentValidationError

text \<open>One constructor for each \<open>console.warn\<close> and \<open>console.error\<close> site that is modelled.\<close>

datatype logEntry =
    WarnConversationNotFoundForResponseId conversationId
  | WarnMessageNotFoundForAppending messageId
  | WarnWouldExceedSizeLimit messageId nat nat
  | WarnMessageNotFoundForComplete messageId
  | WarnMessageNotFoundForError messageId
  | WarnMessageNotFoundForReasoning messageId
  | ErrConversationNotFound conversationId
  | ErrNoUserMessage conversationId
  | ErrNoContentInUserMessage
  | ErrUnsupportedModelFallback string
  | WarnNoContentGenerated
  | ErrDuringGeneration
  | ErrInGenerateAiResponse

text \<open>A job handed to \<open>ctx.scheduler.runAfter\<close>: the delay in milliseconds and the action.\<close>

datatype job =
    GenerateAiResponse nat conversationId
  | GenerateConversationTitle nat conversationId

text \<open>
  The store and what surrounds it. Messages get increasing ids from \<open>nextId\<close>, so the
  creation order of the messages of a conversation is the order of their ids.
  \<open>fileMessageMappings\<close> is the table in insertion order.
\<close>

record world =
  users :: "userId set"
  conversations :: "conversationId \<rightharpoonup> conversation"
  messages :: "messageId \<rightharpoonup> message"
  nextId :: nat
  fileMessageMappings :: "fileMessageMapping list"
  scheduled :: "job list"
  console :: "logEntry list"

definition logTo :: "logEntry \<Rightarrow> world \<Rightarrow> world" where
  "logTo e w = w\<lparr>console := console w @ [e]\<rparr>"

section \<open>Queries and mutations (convex/chatQueriesAndMutations.ts)\<close>

definition MAX_MESSAGE_SIZE :: nat where
  "MAX_MESSAGE_SIZE = 50 * 1024"

text \<open>\<open>getConversation\<close> called without a \<open>userId\<close>, as \<open>generateAiResponse\<close> does.\<close>

definition getConversation :: "conversationId \<Rightarrow> world \<Rightarrow> conversation option" where
  "getConversation cid w = conversations w cid"

text \<open>\<open>getConversation\<close> called with a \<open>userId\<close>: it throws "Not found" for a foreign owner.\<close>

definition getConversationFor ::
  "conversationId \<Rightarrow> userId \<Rightarrow> world \<Rightarrow> error + conversation option" where
  "getConversationFor cid uid w =
     (case conversations w cid of
        None \<Rightarrow> Inr None
      | Some c \<Rightarrow> if userId c \<noteq> uid then Inl NotFound else Inr (Some c))"

definition updateConversationResponseId :: "conversationId \<Rightarrow> string \<Rightarrow> world \<Rightarrow> world" where
  "updateConversationResponseId cid responseId w =
     (case conversations w cid of
        None \<Rightarrow> logTo (WarnConversationNotFoundForResponseId cid) w
      | Some c \<Rightarrow>
          w\<lparr>conversations := (conversations w)(cid \<mapsto> c\<lparr>lastResponseId := Some responseId\<rparr>)\<rparr>)"

text \<open>
  \<open>ctx.db.patch(conversationId, {updatedTime: Date.now()})\<close> without a preceding check:
  the patch of a missing document throws, and the mutation leaves no trace.
\<close>

definition patchUpdatedTime :: "conversationId \<Rightarrow> nat \<Rightarrow> world \<Rightarrow> error + world" where
  "patchUpdatedTime cid now w =
     (case conversations w cid of
        None \<Rightarrow> Inl PatchOfMissingDocument
      | Some c \<Rightarrow> Inr (w\<lparr>conversations := (conversations w)(cid \<mapsto> c\<lparr>updatedTime := Some now\<rparr>)\<rparr>))"

definition insertMessage :: "message \<Rightarrow> world \<Rightarrow> messageId \<times> world" where
  "insertMessage m w =
     (nextId w, w\<lparr>messages := (messages w)(nextId w \<mapsto> m), nextId := Suc (nextId w)\<rparr>)"

record storeAiMessageArgs =
  sa_conversationId :: conversationId
  sa_content :: string
  sa_status :: "status option"
  sa_openaiResponseId :: "string option"
  sa_reasoningSummary :: "string option"
  sa_citations :: "citation list option"
  sa_timezone :: "string option"

definition storeAiMessage :: "storeAiMessageArgs \<Rightarrow> nat \<Rightarrow> world \<Rightarrow> error + (messageId \<times> world)" where
  "storeAiMessage args now w =
     (let (mid, w1) = insertMessage
            \<lparr>conversationId = sa_conversationId args, author = Assistant,
             content = sa_content args, status = sa_status args,
             fileIds = None, uploadedFileNames = None, uploadedFiles = None,
             openaiResponseId = sa_openaiResponseId args, vectorStoreFileIds = None,
             webSearchEnabled = None, model = None, thinkingIntensity = None,
             citations = sa_citations args, reasoningSummary = sa_reasoningSummary args,
             timezone = sa_timezone args\<rparr> w
      in if sa_status args \<noteq> Some Typing
         then (case patchUpdatedTime (sa_conversationId args) now w1 of
                 Inl e \<Rightarrow> Inl e
               | Inr w2 \<Rightarrow> Inr (mid, w2))
         else Inr (mid, w1))"

record storeUserMessageArgs =
  su_conversationId :: conversationId
  su_content :: string
  su_fileIds :: "string list option"
  su_uploadedFileNames :: "string list option"
  su_timezone :: "string option"
  su_webSearchEnabled :: "bool option"
  su_model :: "string option"
  su_thinkingIntensity :: "thinkingIntensity option"

definition storeUserMessage :: "storeUserMessageArgs \<Rightarrow> nat \<Rightarrow> world \<Rightarrow> error + world" where
  "storeUserMessage args now w =
     (let (mid, w1) = insertMessage
            \<lparr>conversationId = su_conversationId args, author = User,
             content = su_content args, status = None,
             fileIds = su_fileIds args, uploadedFileNames = su_uploadedFileNames args,
             uploadedFiles = None, openaiResponseId = None, vectorStoreFileIds = None,
             webSearchEnabled = su_webSearchEnabled args, model = su_model args,
             thinkingIntensity = su_thinkingIntensity args,
             citations = None, reasoningSummary = None, timezone = su_timezone args\<rparr> w
      in patchUpdatedTime (su_conversationId args) now w1)"

text \<open>
  \<open>appendMessageContent\<close>, with the module constant \<open>MAX_MESSAGE_SIZE\<close> as the parameter
  \<open>cap\<close>. \<open>remainingSpace\<close> is a JavaScript number and may be negative.
\<close>

definition appendMessageContentCap :: "nat \<Rightarrow> messageId \<Rightarrow> string \<Rightarrow> world \<Rightarrow> world" where
  "appendMessageContentCap cap mid delta w =
     (case messages w mid of
        None \<Rightarrow> logTo (WarnMessageNotFoundForAppending mid) w
      | Some msg \<Rightarrow>
          (let newContent = content msg @ delta in
           if length newContent > cap then
             (let w1 = logTo (WarnWouldExceedSizeLimit mid (length newContent) cap) w;
                  remainingSpace = int cap - int (length (content msg))
              in if remainingSpace \<le> 0 then w1
                 else w1\<lparr>messages := (messages w1)
                        (mid \<mapsto> msg\<lparr>content := content msg @ take (nat remainingSpace) delta\<rparr>)\<rparr>)
           else w\<lparr>messages := (messages w)(mid \<mapsto> msg\<lparr>content := newContent\<rparr>)\<rparr>))"

definition appendMessageContent :: "messageId \<Rightarrow> string \<Rightarrow> world \<Rightarrow> world" where
  "appendMessageContent = appendMessageContentCap MAX_MESSAGE_SIZE"

record markMessageCompleteArgs =
  mc_messageId :: messageId
  mc_openaiResponseId :: "string option"
  mc_reasoningSummary :: "string option"
  mc_citations :: "citation list option"
  mc_timezone :: "string option"

text \<open>A field of \<open>updateData\<close> that stays undefined is left as it is by \<open>ctx.db.patch\<close>.\<close>

definition patchOptional :: "'a option \<Rightarrow> 'a option \<Rightarrow> 'a option" where
  "patchOptional new old = (case new of None \<Rightarrow> old | Some v \<Rightarrow> Some v)"

definition markMessageComplete :: "markMessageCompleteArgs \<Rightarrow> world \<Rightarrow> world" where
  "markMessageComplete args w =
     (case messages w (mc_messageId args) of
        None \<Rightarrow> logTo (WarnMessageNotFoundForComplete (mc_messageId args)) w
      | Some msg \<Rightarrow>
          w\<lparr>messages := (messages w)(mc_messageId args \<mapsto>
               msg\<lparr>status := Some Completed,
                   openaiResponseId := patchOptional (mc_openaiResponseId args) (openaiResponseId msg),
                   reasoningSummary := patchOptional (mc_reasoningSummary args) (reasoningSummary msg),
                   citations := patchOptional (mc_citations args) (citations msg)\<rparr>)\<rparr>)"

text \<open>
  \<open>markMessageError\<close>. The mutation declares \<open>args: {messageId}\<close>, and the arguments
  of a call are validated against that before the handler runs: a call that carries
  another field throws and writes nothing. The newer \<open>generateAiResponse\<close> calls it with
  \<open>{messageId, errorDetails}\<close>; the argument record carries what a caller sends, and
  \<open>markMessageErrorHandler\<close> is the handler, which reads \<open>messageId\<close> only.
\<close>

record markMessageErrorArgs =
  me_messageId :: messageId
  me_errorDetails :: "string option"

definition markMessageErrorHandler :: "messageId \<Rightarrow> world \<Rightarrow> world" where
  "markMessageErrorHandler mid w =
     (case messages w mid of
        None \<Rightarrow> logTo (WarnMessageNotFoundForError mid) w
      | Some msg \<Rightarrow> w\<lparr>messages := (messages w)(mid \<mapsto> msg\<lparr>status := Some Error\<rparr>)\<rparr>)"

definition markMessageError :: "markMessageErrorArgs \<Rightarrow> world \<Rightarrow> error + world" where
  "markMessageError args w =
     (if me_errorDetails args \<noteq> None then Inl ArgumentValidationError
      else Inr (markMessageErrorHandler (me_messageId args) w))"

definition updateReasoningSummary :: "messageId \<Rightarrow> string \<Rightarrow> world \<Rightarrow> world" where
  "updateReasoningSummary mid summary w =
     (case messages w mid of
        None \<Rightarrow> logTo (WarnMessageNotFoundForReasoning mid) w
      | Some msg \<Rightarrow>
          w\<lparr>messages := (messages w)(mid \<mapsto> msg\<lparr>reasoningSummary := Some summary\<rparr>)\<rparr>)"

text \<open>
  Messages of a conversation by creation order (the index \<open>by_conversationId\<close>):
  \<open>getFirstMessage\<close> takes the oldest one, \<open>getLastUserMessage\<close> the newest one whose
  author is the user.
\<close>

definition messagesOf :: "conversationId \<Rightarrow> world \<Rightarrow> message list" where
  "messagesOf cid w =
     filter (\<lambda>m. conversationId m = cid)
       (concat (map (\<lambda>i. case messages w i of None \<Rightarrow> [] | Some m \<Rightarrow> [m]) [0..<nextId w]))"

definition getFirstMessage :: "conversationId \<Rightarrow> world \<Rightarrow> message option" where
  "getFirstMessage cid w = (case messagesOf cid w of [] \<Rightarrow> None | m # _ \<Rightarrow> Some m)"

definition getLastUserMessage :: "conversationId \<Rightarrow> world \<Rightarrow> message option" where
  "getLastUserMessage cid w =
     (case rev (filter (\<lambda>m. author m = User) (messagesOf cid w)) of
        [] \<Rightarrow> None | m # _ \<Rightarrow> Some m)"

text \<open>
  \<open>getLoggedInUser\<close>: \<open>auth\<close> is what \<open>getAuthUserId\<close> returns. The user document is
  represented by its id.
\<close>

definition getLoggedInUser :: "userId option \<Rightarrow> world \<Rightarrow> error + userId" where
  "getLoggedInUser auth w =
     (case auth of
        None \<Rightarrow> Inl UserNotAuthenticated
      | Some uid \<Rightarrow> if uid \<in> users w then Inr uid else Inl UserNotFound)"

definition updateConversationVectorStore ::
  "conversationId \<Rightarrow> string \<Rightarrow> world \<Rightarrow> error + world" where
  "updateConversationVectorStore cid vs w =
     (case conversations w cid of
        None \<Rightarrow> Inl PatchOfMissingDocument
      | Some c \<Rightarrow> Inr (w\<lparr>conversations := (conversations w)(cid \<mapsto> c\<lparr>vectorStoreId := Some vs\<rparr>)\<rparr>))"

record storeUserMessageWithVectorStoreArgs =
  sv_conversationId :: conversationId
  sv_content :: string
  sv_fileIds :: "string list option"
  sv_uploadedFileNames :: "string list option"
  sv_uploadedFiles :: "uploadedFile list option"
  sv_vectorStoreFileIds :: "string list option"
  sv_timezone :: "string option"
  sv_webSearchEnabled :: "bool option"
  sv_model :: "string option"
  sv_thinkingIntensity :: "thinkingIntensity option"

definition storeUserMessageWithVectorStore ::
  "storeUserMessageWithVectorStoreArgs \<Rightarrow> nat \<Rightarrow> world \<Rightarrow> error + (messageId \<times> world)" where
  "storeUserMessageWithVectorStore args now w =
     (let (mid, w1) = insertMessage
            \<lparr>conversationId = sv_conversationId args, author = User,
             content = sv_content args, status = None,
             fileIds = sv_fileIds args, uploadedFileNames = sv_uploadedFileNames args,
             uploadedFiles = sv_uploadedFiles args, openaiResponseId = None,
             vectorStoreFileIds = sv_vectorStoreFileIds args,
             webSearchEnabled = sv_webSearchEnabled args, model = sv_model args,
             thinkingIntensity = sv_thinkingIntensity args,
             citations = None, reasoningSummary = None, timezone = sv_timezone args\<rparr> w
      in case patchUpdatedTime (sv_conversationId args) now w1 of
           Inl e \<Rightarrow> Inl e
         | Inr w2 \<Rightarrow> Inr (mid, w2))"

subsection \<open>File citation index\<close>

text \<open>
  \<open>.withIndex("by_openaiFileId", q => q.eq("openaiFileId", id)).unique()\<close>: null for no
  row, the row when there is one, and a throw when there are several.
\<close>

definition uniqueByOpenaiFileId :: "string \<Rightarrow> world \<Rightarrow> error + fileMessageMapping option" where
  "uniqueByOpenaiFileId fid w =
     (case filter (\<lambda>m. openaiFileId m = fid) (fileMessageMappings w) of
        [] \<Rightarrow> Inr None
      | [m] \<Rightarrow> Inr (Some m)
      | _ # _ # _ \<Rightarrow> Inl NotUnique)"

record createUserFileMappingArgs =
  cm_openaiFileId :: string
  cm_fileName :: string
  cm_uploadedBy :: userId
  cm_storageId :: storageId
  cm_fileMimeType :: "string option"
  cm_fileSize :: "nat option"
  cm_firstUsedInConversationId :: "conversationId option"
  cm_firstUsedInMessageId :: "messageId option"

definition createUserFileMapping ::
  "createUserFileMappingArgs \<Rightarrow> nat \<Rightarrow> world \<Rightarrow> error + world" where
  "createUserFileMapping args now w =
     (case uniqueByOpenaiFileId (cm_openaiFileId args) w of
        Inl e \<Rightarrow> Inl e
      | Inr (Some existingMapping) \<Rightarrow> Inr w
      | Inr None \<Rightarrow>
          Inr (w\<lparr>fileMessageMappings := fileMessageMappings w @
                 [\<lparr>openaiFileId = cm_openaiFileId args, fileName = cm_fileName args,
                   fileType = UserUpload, uploadedBy = Some (cm_uploadedBy args),
                   storageId = Some (cm_storageId args),
                   firstUsedInConversationId = cm_firstUsedInConversationId args,
                   firstUsedInMessageId = cm_firstUsedInMessageId args,
                   fileMimeType = cm_fileMimeType args, fileSize = cm_fileSize args,
                   uploadedAt = now\<rparr>]\<rparr>))"

record fileMappingInput =
  fm_openaiFileId :: string
  fm_fileName :: string
  fm_storageId :: storageId
  fm_fileMimeType :: "string option"
  fm_fileSize :: "nat option"

text \<open>
  \<open>createUserFileMappings\<close>: one \<open>createUserFileMapping\<close> for each element, inside one
  mutation; a throw of any of them aborts the whole mutation.
\<close>

fun createUserFileMappings ::
  "userId \<Rightarrow> conversationId option \<Rightarrow> messageId option \<Rightarrow> fileMappingInput list \<Rightarrow> nat \<Rightarrow>
   world \<Rightarrow> error + world" where
  "createUserFileMappings by cid mid [] now w = Inr w"
| "createUserFileMappings by cid mid (f # fs) now w =
     (case createUserFileMapping
             \<lparr>cm_openaiFileId = fm_openaiFileId f, cm_fileName = fm_fileName f,
              cm_uploadedBy = by, cm_storageId = fm_storageId f,
              cm_fileMimeType = fm_fileMimeType f, cm_fileSize = fm_fileSize f,
              cm_firstUsedInConversationId = cid, cm_firstUsedInMessageId = mid\<rparr> now w of
        Inl e \<Rightarrow> Inl e
      | Inr w1 \<Rightarrow> createUserFileMappings by cid mid fs now w1)"

text \<open>\<open>findUserMessageByFileIdImpl\<close>; null is \<open>Inr None\<close>.\<close>

definition findUserMessageByFileIdImpl ::
  "userId option \<Rightarrow> conversationId \<Rightarrow> string \<Rightarrow> world \<Rightarrow> error + (messageId \<times> string) option" where
  "findUserMessageByFileIdImpl auth cid fid w =
     (case getLoggedInUser auth w of
        Inl e \<Rightarrow> Inl e
      | Inr user \<Rightarrow>
          (case conversations w cid of
             None \<Rightarrow> Inl ConversationAccessDenied
           | Some conv \<Rightarrow>
               if userId conv \<noteq> user then Inl ConversationAccessDenied
               else
                 (case uniqueByOpenaiFileId fid w of
                    Inl e \<Rightarrow> Inl e
                  | Inr None \<Rightarrow> Inr None
                  | Inr (Some fileMapping) \<Rightarrow>
                      if firstUsedInConversationId fileMapping \<noteq> None \<and>
                         firstUsedInConversationId fileMapping \<noteq> Some cid
                      then Inr None
                      else if fileType fileMapping = UserUpload \<and>
                              uploadedBy fileMapping \<noteq> Some user
                      then Inl FileAccessDenied
                      else (case firstUsedInMessageId fileMapping of
                              Some mid \<Rightarrow> Inr (Some (mid, fileName fileMapping))
                            | None \<Rightarrow> Inr None))))"

section \<open>Supported models and files (convex/constants.ts)\<close>

definition MAX_FILES :: nat where
  "MAX_FILES = 10"

definition MAX_FILE_SIZE :: nat where
  "MAX_FILE_SIZE = 10 * 1024 * 1024"

definition SUPPORTED_FILE_TYPES :: "string list" where
  "SUPPORTED_FILE_TYPES = [''txt'', ''pdf'', ''docx'']"

text \<open>The \<open>name\<close> and the \<open>thinking\<close> flag of each entry of \<open>SUPPORTED_MODELS\<close>.\<close>

definition SUPPORTED_MODELS :: "(string \<times> bool) list" where
  "SUPPORTED_MODELS =
     [(''gpt-4.1'', False), (''o4-mini'', True), (''o3-mini'', True), (''o3'', True),
      (''o3-pro'', True)]"

definition THINKING_MODELS :: "string list" where
  "THINKING_MODELS = map fst (filter snd SUPPORTED_MODELS)"

definition isSupportedModel :: "string \<Rightarrow> bool" where
  "isSupportedModel m = (m \<in> set (map fst SUPPORTED_MODELS))"

definition isThinkingModel :: "string \<Rightarrow> bool" where
  "isThinkingModel m = (m \<in> set THINKING_MODELS)"

text \<open>
  \<open>toLowerCase\<close> on the characters a \<open>string\<close> has (the code units below 256): the
  letters A to Z and the capital letters from U+00C0 to U+00DE, without the
  multiplication sign U+00D7, move up by 32; every other character stays.
\<close>

definition toLowerChar :: "char \<Rightarrow> char" where
  "toLowerChar c =
     (if ((65::nat) \<le> of_char c \<and> of_char c \<le> (90::nat)) \<or>
         ((192::nat) \<le> of_char c \<and> of_char c \<le> (222::nat) \<and> of_char c \<noteq> (215::nat))
      then char_of (of_char c + (32::nat)) else c)"

definition toLowerCase :: "string \<Rightarrow> string" where
  "toLowerCase s = map toLowerChar s"

text \<open>\<open>fileName.split(".").pop()?.toLowerCase()\<close>: the text after the last dot.\<close>

definition fileExtensionOf :: "string \<Rightarrow> string" where
  "fileExtensionOf fname = toLowerCase (rev (takeWhile (\<lambda>c. c \<noteq> CHR ''.'') (rev fname)))"

definition isSupportedFileExtension :: "string \<Rightarrow> bool" where
  "isSupportedFileExtension extension =
     (if extension = [] then False else toLowerCase extension \<in> set SUPPORTED_FILE_TYPES)"

definition mimeTypeMap :: "(string \<times> string) list" where
  "mimeTypeMap =
     [(''txt'', ''text/plain''),
      (''pdf'', ''application/pdf''),
      (''doc'', ''application/msword''),
      (''docx'', ''application/vnd.openxmlformats-officedocument.wordprocessingml.document''),
      (''xls'', ''application/vnd.ms-excel''),
      (''xlsx'', ''application/vnd.openxmlformats-officedocument.spreadsheetml.sheet''),
      (''ppt'', ''application/vnd.ms-powerpoint''),
      (''pptx'', ''application/vnd.openxmlformats-officedocument.presentationml.presentation''),
      (''csv'', ''text/csv''),
      (''json'', ''application/json''),
      (''xml'', ''application/xml''),
      (''html'', ''text/html''),
      (''htm'', ''text/html'')]"

text \<open>\<open>getMimeType\<close> as it is called, with an extension that passed the whitelist.\<close>

definition getMimeType :: "string \<Rightarrow> string \<Rightarrow> string" where
  "getMimeType fname fileExtension =
     (let extension = (if fileExtension \<noteq> [] then fileExtension else fileExtensionOf fname)
      in case map_of mimeTypeMap extension of
           None \<Rightarrow> ''application/octet-stream''
         | Some t \<Rightarrow> t)"

section \<open>The turn: generateAiResponse (convex/chat.ts)\<close>

text \<open>
  \<open>String.prototype.trim\<close> on the characters a \<open>string\<close> has: tab, line feed, vertical
  tab, form feed, carriage return, space and no-break space.
\<close>

definition isWhiteSpace :: "char \<Rightarrow> bool" where
  "isWhiteSpace c = (of_char c \<in> set [9, 10, 11, 12, 13, 32, 160 :: nat])"

definition trim :: "string \<Rightarrow> string" where
  "trim s = rev (dropWhile isWhiteSpace (rev (dropWhile isWhiteSpace s)))"

text \<open>\<open>value || fallback\<close> on an optional string: undefined and the empty string are falsy.\<close>

definition orDefault :: "string option \<Rightarrow> string \<Rightarrow> string" where
  "orDefault v d = (case v of None \<Rightarrow> d | Some s \<Rightarrow> if s = [] then d else s)"

datatype annotation =
    FileCitationAnnotation (file_id: string) (filename: "string option")
  | UrlCitationAnnotation (ann_url: string) (ann_title: "string option")
  | OtherAnnotation

record outputTextContent =
  oc_type :: string
  oc_annotations :: "annotation list option"

record responseOutput =
  ro_type :: string
  ro_content :: "outputTextContent list option"

text \<open>
  The events of the stream by their \<open>type\<close>; an event of any other type is skipped by
  the loop.
\<close>

datatype event =
    ResponseCreated string
  | OutputTextDelta string
  | ReasoningSummaryTextDelta string
  | ReasoningSummaryTextDone string
  | OutputTextDone "annotation list option"
  | ResponseCompleted "responseOutput list"
  | OtherEvent

definition isFileCitationOf :: "string \<Rightarrow> citation \<Rightarrow> bool" where
  "isFileCitationOf fid c = (case c of FileCitation f n \<Rightarrow> f = fid | UrlCitation u t \<Rightarrow> False)"

definition isUrlCitationOf :: "string \<Rightarrow> citation \<Rightarrow> bool" where
  "isUrlCitationOf u c = (case c of FileCitation f n \<Rightarrow> False | UrlCitation u' t \<Rightarrow> u' = u)"

text \<open>
  The body of the loops over annotations, the same at both sites: the check
  \<open>!citations.some(...)\<close> and then \<open>citations.push(...)\<close>.
\<close>

fun addAnnotation :: "citation list \<Rightarrow> annotation \<Rightarrow> citation list" where
  "addAnnotation cs (FileCitationAnnotation fid fn) =
     (let fname = orDefault fn ''unknown''
      in if \<not> list_ex (isFileCitationOf fid) cs then cs @ [FileCitation fid fname] else cs)"
| "addAnnotation cs (UrlCitationAnnotation u t) =
     (let ttl = orDefault t ''Web Result''
      in if \<not> list_ex (isUrlCitationOf u) cs then cs @ [UrlCitation u ttl] else cs)"
| "addAnnotation cs OtherAnnotation = cs"

definition addAnnotations :: "citation list \<Rightarrow> annotation list \<Rightarrow> citation list" where
  "addAnnotations cs anns = foldl addAnnotation cs anns"

text \<open>The annotations that the handler of \<open>response.completed\<close> visits, in its order.\<close>

definition contentAnnotations :: "outputTextContent \<Rightarrow> annotation list" where
  "contentAnnotations c =
     (if oc_type c = ''output_text'' then (case oc_annotations c of None \<Rightarrow> [] | Some anns \<Rightarrow> anns)
      else [])"

definition itemAnnotations :: "responseOutput \<Rightarrow> annotation list" where
  "itemAnnotations item =
     (if ro_type item = ''message''
      then (case ro_content item of None \<Rightarrow> [] | Some cs \<Rightarrow> concat (map contentAnnotations cs))
      else [])"

definition completedAnnotations :: "responseOutput list \<Rightarrow> annotation list" where
  "completedAnnotations output = concat (map itemAnnotations output)"

text \<open>The local variables of the streaming loop.\<close>

record turnState =
  fullContent :: string
  ts_openaiResponseId :: string
  ts_reasoningSummary :: string
  ts_citations :: "citation list"

definition initialTurnState :: turnState where
  "initialTurnState =
     \<lparr>fullContent = [], ts_openaiResponseId = [], ts_reasoningSummary = [], ts_citations = []\<rparr>"

text \<open>\<open>x.trim() || undefined\<close> and \<open>xs.length > 0 ? xs : undefined\<close>.\<close>

definition trimmedOrUndefined :: "string \<Rightarrow> string option" where
  "trimmedOrUndefined s = (if trim s = [] then None else Some (trim s))"

definition nonEmptyOrUndefined :: "'a list \<Rightarrow> 'a list option" where
  "nonEmptyOrUndefined xs = (if length xs > 0 then Some xs else None)"

text \<open>One event other than \<open>response.completed\<close>.\<close>

fun handleEvent :: "messageId \<Rightarrow> event \<Rightarrow> turnState \<times> world \<Rightarrow> turnState \<times> world" where
  "handleEvent mid (ResponseCreated rid) (s, w) = (s\<lparr>ts_openaiResponseId := rid\<rparr>, w)"
| "handleEvent mid (OutputTextDelta delta) (s, w) =
     (s\<lparr>fullContent := fullContent s @ delta\<rparr>, appendMessageContent mid delta w)"
| "handleEvent mid (ReasoningSummaryTextDelta delta) (s, w) =
     (let r = ts_reasoningSummary s @ delta
      in (s\<lparr>ts_reasoningSummary := r\<rparr>, updateReasoningSummary mid r w))"
| "handleEvent mid (ReasoningSummaryTextDone text) (s, w) =
     (let r = ts_reasoningSummary s @ text
      in (s\<lparr>ts_reasoningSummary := r\<rparr>, updateReasoningSummary mid r w))"
| "handleEvent mid (OutputTextDone anns) (s, w) =
     (case anns of
        None \<Rightarrow> (s, w)
      | Some as \<Rightarrow> (s\<lparr>ts_citations := addAnnotations (ts_citations s) as\<rparr>, w))"
| "handleEvent mid (ResponseCompleted output) (s, w) = (s, w)"
| "handleEvent mid OtherEvent (s, w) = (s, w)"

text \<open>The handler of \<open>response.completed\<close>, up to its \<open>break\<close>.\<close>

definition handleCompleted ::
  "conversationId \<Rightarrow> messageId \<Rightarrow> responseOutput list \<Rightarrow> turnState \<times> world \<Rightarrow> turnState \<times> world" where
  "handleCompleted cid mid output sw =
     (let s = fst sw; w = snd sw;
          s1 = s\<lparr>ts_citations := addAnnotations (ts_citations s) (completedAnnotations output)\<rparr>;
          w1 = markMessageComplete
                 \<lparr>mc_messageId = mid, mc_openaiResponseId = Some (ts_openaiResponseId s1),
                  mc_reasoningSummary = trimmedOrUndefined (ts_reasoningSummary s1),
                  mc_citations = nonEmptyOrUndefined (ts_citations s1), mc_timezone = None\<rparr> w;
          w2 = updateConversationResponseId cid (ts_openaiResponseId s1) w1
      in (s1, w2))"

text \<open>
  \<open>for await (const event of response)\<close>: the result says whether the loop left by
  \<open>break\<close>; the events behind \<open>response.completed\<close> are not read.
\<close>

fun streamLoop ::
  "conversationId \<Rightarrow> messageId \<Rightarrow> event list \<Rightarrow> turnState \<times> world \<Rightarrow> bool \<times> turnState \<times> world" where
  "streamLoop cid mid [] sw = (False, sw)"
| "streamLoop cid mid (ResponseCompleted output # es) sw = (True, handleCompleted cid mid output sw)"
| "streamLoop cid mid (e # es) sw = streamLoop cid mid es (handleEvent mid e sw)"

text \<open>
  What is sent to \<open>openai.responses.create\<close>. The input text is the list of the pieces
  that the source joins with a newline; the rendered system prompt is left out.
\<close>

datatype inputPiece = MessageText string | FilesAttached nat

datatype tool = WebSearchPreview | FileSearch "string list" nat

record request =
  rq_model :: string
  rq_input :: "inputPiece list"
  rq_previous_response_id :: "string option"
  rq_tools :: "tool list option"

text \<open>
  What the provider does with the request: the call itself throws, or it returns a
  stream that delivers events and then ends, cleanly or with an exception of the
  transport.
\<close>

datatype streamEnd = EndOfStream | TransportError

datatype providerResponse = CreateThrows | Stream "event list" streamEnd

text \<open>
  The surroundings of one run: the provider, the time zones that
  \<open>toLocaleString\<close> accepts (it throws a RangeError for any other), and \<open>Date.now()\<close>.
\<close>

record turnEnv =
  provider :: "request \<Rightarrow> providerResponse"
  validTimeZone :: "string \<Rightarrow> bool"
  turnNow :: nat

definition truthyOrUndefined :: "string option \<Rightarrow> string option" where
  "truthyOrUndefined v = (case v of None \<Rightarrow> None | Some s \<Rightarrow> if s = [] then None else Some s)"

definition buildInput :: "message \<Rightarrow> inputPiece list" where
  "buildInput lastMessage =
     (if trim (content lastMessage) \<noteq> [] then [MessageText (content lastMessage)] else []) @
     (case fileIds lastMessage of
        None \<Rightarrow> []
      | Some fs \<Rightarrow> if length fs > 0 then [FilesAttached (length fs)] else [])"

definition buildTools :: "conversation \<Rightarrow> message \<Rightarrow> tool list" where
  "buildTools conv lastMessage =
     (if webSearchEnabled lastMessage = Some True then [WebSearchPreview] else []) @
     (case truthyOrUndefined (vectorStoreId conv) of
        None \<Rightarrow> []
      | Some vs \<Rightarrow> [FileSearch [vs] 10])"

text \<open>The model of the last user message, or \<open>gpt-4.1\<close> when it is missing or unsupported.\<close>

definition selectModel :: "message \<Rightarrow> string" where
  "selectModel lastMessage =
     (let requested = orDefault (model lastMessage) ''gpt-4.1''
      in if isSupportedModel requested then requested else ''gpt-4.1'')"

definition buildRequest :: "conversation \<Rightarrow> message \<Rightarrow> string \<Rightarrow> request" where
  "buildRequest conv lastMessage selectedModel =
     \<lparr>rq_model = selectedModel,
      rq_input = buildInput lastMessage,
      rq_previous_response_id = truthyOrUndefined (lastResponseId conv),
      rq_tools = nonEmptyOrUndefined (buildTools conv lastMessage)\<rparr>"

text \<open>
  The inner \<open>catch\<close>: the message gets the apology appended and the status error.
  \<open>convex/chat.ts\<close> calls \<open>markMessageError\<close> with \<open>{messageId}\<close> only, which the validation
  accepts, so the call is a run of the handler.
\<close>

definition innerCatch :: "messageId \<Rightarrow> world \<Rightarrow> world" where
  "innerCatch mid w =
     markMessageErrorHandler mid
       (appendMessageContent mid ''Sorry, I encountered an error while generating a response.''
          (logTo ErrDuringGeneration w))"

text \<open>The inner \<open>try\<close>: the provider call, the loop, and the check for empty content.\<close>

definition respond ::
  "turnEnv \<Rightarrow> conversationId \<Rightarrow> messageId \<Rightarrow> request \<Rightarrow> world \<Rightarrow> world" where
  "respond ev cid mid rq w =
     (case provider ev rq of
        CreateThrows \<Rightarrow> innerCatch mid w
      | Stream events end \<Rightarrow>
          (case streamLoop cid mid events (initialTurnState, w) of
             (broke, s, w1) \<Rightarrow>
               if \<not> broke \<and> end = TransportError then innerCatch mid w1
               else if trim (fullContent s) = []
               then markMessageErrorHandler mid (logTo WarnNoContentGenerated w1)
               else w1))"

text \<open>The outer \<open>catch\<close>: a new message with the status error.\<close>

definition outerCatch :: "conversationId \<Rightarrow> nat \<Rightarrow> world \<Rightarrow> error + world" where
  "outerCatch cid now w =
     (case storeAiMessage
             \<lparr>sa_conversationId = cid,
              sa_content = ''Sorry, I encountered an error while preparing the response.'',
              sa_status = Some Error, sa_openaiResponseId = None, sa_reasoningSummary = None,
              sa_citations = None, sa_timezone = None\<rparr> now (logTo ErrInGenerateAiResponse w) of
        Inl e \<Rightarrow> Inl e
      | Inr (mid, w1) \<Rightarrow> Inr w1)"

definition generateAiResponse :: "turnEnv \<Rightarrow> conversationId \<Rightarrow> world \<Rightarrow> error + world" where
  "generateAiResponse ev cid w =
     (case getConversation cid w of
        None \<Rightarrow> Inr (logTo (ErrConversationNotFound cid) w)
      | Some conv \<Rightarrow>
          (case getLastUserMessage cid w of
             None \<Rightarrow> Inr (logTo (ErrNoUserMessage cid) w)
           | Some lastMessage \<Rightarrow>
               if buildInput lastMessage = [] then Inr (logTo ErrNoContentInUserMessage w)
               else
                 (let selectedModel = selectModel lastMessage;
                      w0 = (if isSupportedModel (orDefault (model lastMessage) ''gpt-4.1'') then w
                            else logTo (ErrUnsupportedModelFallback
                                          (orDefault (model lastMessage) ''gpt-4.1'')) w)
                  in case storeAiMessage
                            \<lparr>sa_conversationId = cid, sa_content = [], sa_status = Some Typing,
                             sa_openaiResponseId = None, sa_reasoningSummary = None,
                             sa_citations = None, sa_timezone = None\<rparr> (turnNow ev) w0 of
                       Inl e \<Rightarrow> outerCatch cid (turnNow ev) w0
                     | Inr (aiMessageId, w1) \<Rightarrow>
                         if \<not> validTimeZone ev (orDefault (timezone lastMessage) ''UTC'')
                         then outerCatch cid (turnNow ev) w1
                         else Inr (respond ev cid aiMessageId
                                     (buildRequest conv lastMessage selectedModel) w1))))"

section \<open>Submitting a turn with files: uploadFileAndSendMessage (convex/chat.ts)\<close>

record convexFile =
  cf_storageId :: storageId
  cf_fileName :: string

record uploadArgs =
  ua_conversationId :: conversationId
  ua_content :: string
  ua_uploadedConvexFiles :: "convexFile list"
  ua_webSearchEnabled :: "bool option"
  ua_model :: "string option"
  ua_thinkingIntensity :: "thinkingIntensity option"
  ua_timezone :: "string option"

text \<open>
  One constructor for each \<open>errors.push\<close> of the action, with the values that its
  message is rendered from. The lines that the action writes to the console repeat
  these messages and are not modelled.
\<close>

datatype uploadError =
    VectorStoreCreateFailed
  | UnsupportedType string string
  | StorageNotFound storageId
  | TooLarge string nat
  | UploadFailed string string
  | SearchIndexAddFailed string
  | NotSearchable string

record uploadResult =
  success :: bool
  errors :: "uploadError list"

text \<open>
  The surroundings of one call: the authenticated user, the blob store (the size of the
  blob, or null), and the provider. \<open>filesCreate\<close> answers the upload of the file at a
  position of the list with the provider's file id (\<open>Inr\<close>) or throws with a message
  (\<open>Inl\<close>); \<open>vectorStoresCreate\<close> is \<open>None\<close> when the call throws.
\<close>

record uploadEnv =
  ue_auth :: "userId option"
  ue_storageGet :: "storageId \<Rightarrow> nat option"
  ue_vectorStoresCreate :: "string option"
  ue_filesCreate :: "nat \<Rightarrow> convexFile \<Rightarrow> string + string"
  ue_vectorStoreFilesCreate :: "string \<Rightarrow> string \<Rightarrow> bool"
  ue_storeNow :: nat
  ue_mappingNow :: nat

text \<open>The arrays that the loop over the files fills.\<close>

record uploadState =
  uploadedOpenAIFileIds :: "string list"
  originalFileNames :: "string list"
  us_vectorStoreFileIds :: "string list"
  uploadedFilesMapping :: "uploadedFile list"
  us_errors :: "uploadError list"

definition pushError :: "uploadError \<Rightarrow> uploadState \<Rightarrow> uploadState" where
  "pushError e st = st\<lparr>us_errors := us_errors st @ [e]\<rparr>"

definition validateModel :: "string option \<Rightarrow> thinkingIntensity option \<Rightarrow> error option" where
  "validateModel m ti =
     (case truthyOrUndefined m of
        None \<Rightarrow> None
      | Some mdl \<Rightarrow>
          if \<not> isSupportedModel mdl then Some (UnsupportedModel mdl)
          else if ti \<noteq> None \<and> \<not> isThinkingModel mdl then Some ThinkingIntensityNotAllowed
          else None)"

text \<open>The checks before any file is touched; each of them throws.\<close>

definition uploadPreconditions :: "uploadEnv \<Rightarrow> uploadArgs \<Rightarrow> world \<Rightarrow> error + (userId \<times> conversation)" where
  "uploadPreconditions env args w =
     (case getLoggedInUser (ue_auth env) w of
        Inl e \<Rightarrow> Inl e
      | Inr user \<Rightarrow>
          (case validateModel (ua_model args) (ua_thinkingIntensity args) of
             Some e \<Rightarrow> Inl e
           | None \<Rightarrow>
               (case getConversationFor (ua_conversationId args) user w of
                  Inl e \<Rightarrow> Inl e
                | Inr None \<Rightarrow> Inl ConversationNotFoundOrAccessDenied
                | Inr (Some conv) \<Rightarrow>
                    if userId conv \<noteq> user then Inl ConversationAccessDenied
                    else if length (ua_uploadedConvexFiles args) > MAX_FILES
                    then Inl (TooManyFiles (length (ua_uploadedConvexFiles args)))
                    else Inr (user, conv))))"

text \<open>
  "Create or get vector store": the local \<open>vectorStoreId\<close>, the \<open>vectorStoreId\<close> of the
  local conversation object, the errors pushed, and the store.
\<close>

definition ensureVectorStore ::
  "uploadEnv \<Rightarrow> uploadArgs \<Rightarrow> conversation \<Rightarrow> world \<Rightarrow>
   string option \<times> string option \<times> uploadError list \<times> world" where
  "ensureVectorStore env args conv w =
     (if truthyOrUndefined (vectorStoreId conv) = None \<and> length (ua_uploadedConvexFiles args) > 0
      then (case ue_vectorStoresCreate env of
              None \<Rightarrow> (vectorStoreId conv, vectorStoreId conv, [VectorStoreCreateFailed], w)
            | Some vs \<Rightarrow>
                (case updateConversationVectorStore (ua_conversationId args) vs w of
                   Inl e \<Rightarrow> (Some vs, vectorStoreId conv, [VectorStoreCreateFailed], w)
                 | Inr w1 \<Rightarrow> (Some vs, Some vs, [], w1)))
      else (vectorStoreId conv, vectorStoreId conv, [], w))"

text \<open>
  The body of the loop for the file at position \<open>i\<close>. \<open>vs\<close> is the local
  \<open>vectorStoreId\<close>, \<open>convVs\<close> the one of the local conversation object and \<open>n\<close> the
  number of files supplied.
\<close>

definition uploadOne ::
  "uploadEnv \<Rightarrow> string option \<Rightarrow> string option \<Rightarrow> nat \<Rightarrow> nat \<Rightarrow> convexFile \<Rightarrow>
   uploadState \<Rightarrow> uploadState" where
  "uploadOne env vs convVs n i f st =
     (let fileExtension = fileExtensionOf (cf_fileName f) in
      if \<not> isSupportedFileExtension fileExtension
      then pushError (UnsupportedType (cf_fileName f) fileExtension) st
      else
        (case ue_storageGet env (cf_storageId f) of
           None \<Rightarrow> pushError (StorageNotFound (cf_storageId f)) st
         | Some sz \<Rightarrow>
             if sz > MAX_FILE_SIZE then pushError (TooLarge (cf_fileName f) sz) st
             else
               (case ue_filesCreate env i f of
                  Inl msg \<Rightarrow> pushError (UploadFailed (cf_fileName f) msg) st
                | Inr fid \<Rightarrow>
                    (let st1 = st\<lparr>uploadedOpenAIFileIds := uploadedOpenAIFileIds st @ [fid],
                                   originalFileNames := originalFileNames st @ [cf_fileName f]\<rparr>;
                         st2 = (case truthyOrUndefined vs of
                                  Some v \<Rightarrow>
                                    if ue_vectorStoreFilesCreate env v fid
                                    then st1\<lparr>us_vectorStoreFileIds := us_vectorStoreFileIds st1 @ [fid]\<rparr>
                                    else pushError (SearchIndexAddFailed (cf_fileName f)) st1
                                | None \<Rightarrow>
                                    if n > 0 \<and> truthyOrUndefined convVs = None
                                    then pushError (NotSearchable (cf_fileName f)) st1
                                    else st1)
                     in st2\<lparr>uploadedFilesMapping := uploadedFilesMapping st2 @
                              [\<lparr>uf_fileName = cf_fileName f, uf_storageId = cf_storageId f,
                                uf_fileType = getMimeType (cf_fileName f) fileExtension,
                                uf_fileSize = sz\<rparr>]\<rparr>))))"

fun uploadLoop ::
  "uploadEnv \<Rightarrow> string option \<Rightarrow> string option \<Rightarrow> nat \<Rightarrow> nat \<Rightarrow> convexFile list \<Rightarrow>
   uploadState \<Rightarrow> uploadState" where
  "uploadLoop env vs convVs n i [] st = st"
| "uploadLoop env vs convVs n i (f # fs) st =
     uploadLoop env vs convVs n (Suc i) fs (uploadOne env vs convVs n i f st)"

text \<open>
  The argument of \<open>createUserFileMappings\<close>: the three arrays read at the same index
  (they are filled together and have the same length).
\<close>

definition fileMappingsOf :: "uploadState \<Rightarrow> fileMappingInput list" where
  "fileMappingsOf st =
     map (\<lambda>(fid, nm, uf).
            \<lparr>fm_openaiFileId = fid, fm_fileName = nm, fm_storageId = uf_storageId uf,
             fm_fileMimeType = Some (uf_fileType uf), fm_fileSize = Some (uf_fileSize uf)\<rparr>)
         (zip (uploadedOpenAIFileIds st) (zip (originalFileNames st) (uploadedFilesMapping st)))"

definition schedule :: "job \<Rightarrow> world \<Rightarrow> world" where
  "schedule j w = w\<lparr>scheduled := scheduled w @ [j]\<rparr>"

text \<open>
  From the check behind the loop to the return. An action is not a transaction: what
  its mutations wrote before a throw stays written.
\<close>

definition finishUpload ::
  "uploadEnv \<Rightarrow> uploadArgs \<Rightarrow> userId \<Rightarrow> uploadState \<Rightarrow> world \<Rightarrow> (error + uploadResult) \<times> world" where
  "finishUpload env args user st w =
     (if uploadedOpenAIFileIds st = [] \<and> length (ua_uploadedConvexFiles args) > 0 \<and>
         length (us_errors st) = length (ua_uploadedConvexFiles args)
      then (Inl AllFilesFailed, w)
      else
        (let isFirstMessage = (getFirstMessage (ua_conversationId args) w = None) in
         case storeUserMessageWithVectorStore
                \<lparr>sv_conversationId = ua_conversationId args, sv_content = ua_content args,
                 sv_fileIds = Some (uploadedOpenAIFileIds st),
                 sv_uploadedFileNames = Some (originalFileNames st),
                 sv_uploadedFiles = Some (uploadedFilesMapping st),
                 sv_vectorStoreFileIds = Some (us_vectorStoreFileIds st),
                 sv_timezone = ua_timezone args, sv_webSearchEnabled = ua_webSearchEnabled args,
                 sv_model = ua_model args, sv_thinkingIntensity = ua_thinkingIntensity args\<rparr>
                (ue_storeNow env) w of
           Inl e \<Rightarrow> (Inl e, w)
         | Inr (mid, w1) \<Rightarrow>
             (case (if length (uploadedOpenAIFileIds st) > 0
                    then createUserFileMappings user (Some (ua_conversationId args)) (Some mid)
                           (fileMappingsOf st) (ue_mappingNow env) w1
                    else Inr w1) of
                Inl e \<Rightarrow> (Inl e, w1)
              | Inr w2 \<Rightarrow>
                  (let w3 = schedule (GenerateAiResponse 0 (ua_conversationId args)) w2;
                       w4 = (if isFirstMessage \<and> trim (ua_content args) \<noteq> []
                             then schedule (GenerateConversationTitle 5000 (ua_conversationId args)) w3
                             else w3)
                   in (Inr \<lparr>success = True, errors = us_errors st\<rparr>, w4)))))"

text \<open>The state of the arrays behind the loop, and the store at that point.\<close>

definition uploadedState :: "uploadEnv \<Rightarrow> uploadArgs \<Rightarrow> conversation \<Rightarrow> world \<Rightarrow> uploadState" where
  "uploadedState env args conv w =
     (case ensureVectorStore env args conv w of
        (vs, convVs, errs, w1) \<Rightarrow>
          uploadLoop env vs convVs (length (ua_uploadedConvexFiles args)) 0
            (ua_uploadedConvexFiles args)
            \<lparr>uploadedOpenAIFileIds = [], originalFileNames = [], us_vectorStoreFileIds = [],
             uploadedFilesMapping = [], us_errors = errs\<rparr>)"

definition uploadFileAndSendMessage ::
  "uploadEnv \<Rightarrow> uploadArgs \<Rightarrow> world \<Rightarrow> (error + uploadResult) \<times> world" where
  "uploadFileAndSendMessage env args w =
     (case uploadPreconditions env args w of
        Inl e \<Rightarrow> (Inl e, w)
      | Inr (user, conv) \<Rightarrow>
          (case ensureVectorStore env args conv w of
             (vs, convVs, errs, w1) \<Rightarrow>
               finishUpload env args user (uploadedState env args conv w) w1))"

section \<open>Notions used to state the properties\<close>

text \<open>
  The citation list in the words of the specification: each annotation becomes a
  citation, with the default for a missing filename or title, and a citation whose key
  was seen before is dropped.
\<close>

definition citationKey :: "citation \<Rightarrow> string + string" where
  "citationKey c = (case c of FileCitation f n \<Rightarrow> Inl f | UrlCitation u t \<Rightarrow> Inr u)"

fun toCitation :: "annotation \<Rightarrow> citation option" where
  "toCitation (FileCitationAnnotation fid fn) = Some (FileCitation fid (orDefault fn ''unknown''))"
| "toCitation (UrlCitationAnnotation u t) = Some (UrlCitation u (orDefault t ''Web Result''))"
| "toCitation OtherAnnotation = None"

fun firstSeen :: "annotation list \<Rightarrow> citation list" where
  "firstSeen [] = []"
| "firstSeen (a # as) =
     (case toCitation a of
        None \<Rightarrow> firstSeen as
      | Some c \<Rightarrow> c # filter (\<lambda>c'. citationKey c' \<noteq> citationKey c) (firstSeen as))"

text \<open>
  What one stream feeds to the accumulation: the annotations of the
  \<open>output_text.done\<close> events in their order, then those of the \<open>completed\<close> event.
\<close>

fun streamAnnotations :: "event list \<Rightarrow> annotation list" where
  "streamAnnotations [] = []"
| "streamAnnotations (ResponseCompleted output # es) = completedAnnotations output"
| "streamAnnotations (OutputTextDone (Some anns) # es) = anns @ streamAnnotations es"
| "streamAnnotations (e # es) = streamAnnotations es"

text \<open>The content deltas that a stream delivers up to its \<open>completed\<close> event, concatenated.\<close>

fun streamedContent :: "event list \<Rightarrow> string" where
  "streamedContent [] = []"
| "streamedContent (ResponseCompleted output # es) = []"
| "streamedContent (OutputTextDelta delta # es) = delta @ streamedContent es"
| "streamedContent (e # es) = streamedContent es"

text \<open>
  Whether a stream delivers a \<open>completed\<close> event, and the response id known at that
  event: the one of the last \<open>created\<close> event before it, starting from \<open>r\<close>.
\<close>

fun deliversCompleted :: "event list \<Rightarrow> bool" where
  "deliversCompleted [] = False"
| "deliversCompleted (ResponseCompleted output # es) = True"
| "deliversCompleted (e # es) = deliversCompleted es"

fun responseIdAtCompleted :: "string \<Rightarrow> event list \<Rightarrow> string" where
  "responseIdAtCompleted r [] = r"
| "responseIdAtCompleted r (ResponseCompleted output # es) = r"
| "responseIdAtCompleted r (ResponseCreated rid # es) = responseIdAtCompleted rid es"
| "responseIdAtCompleted r (e # es) = responseIdAtCompleted r es"

text \<open>The status of a message of the store, when the message exists and has one.\<close>

definition statusOf :: "world \<Rightarrow> messageId \<Rightarrow> status option" where
  "statusOf w mid = (case messages w mid of None \<Rightarrow> None | Some m \<Rightarrow> status m)"

definition lastResponseIdOf :: "world \<Rightarrow> conversationId \<Rightarrow> string option" where
  "lastResponseIdOf w cid = (case conversations w cid of None \<Rightarrow> None | Some c \<Rightarrow> lastResponseId c)"

text \<open>
  A supplied file fails when its extension is not supported, its blob is missing, it is
  larger than \<open>MAX_FILE_SIZE\<close>, or the provider refuses the upload; \<open>failedFiles\<close>
  counts the files that fail, the first of the list being at position \<open>i\<close>. The four
  errors that report such a failure are the file failures.
\<close>

definition fileFails :: "uploadEnv \<Rightarrow> nat \<Rightarrow> convexFile \<Rightarrow> bool" where
  "fileFails env i f =
     (if isSupportedFileExtension (fileExtensionOf (cf_fileName f))
      then (case ue_storageGet env (cf_storageId f) of
              None \<Rightarrow> True
            | Some sz \<Rightarrow> if sz > MAX_FILE_SIZE then True else isl (ue_filesCreate env i f))
      else True)"

fun failedFiles :: "uploadEnv \<Rightarrow> nat \<Rightarrow> convexFile list \<Rightarrow> nat" where
  "failedFiles env i [] = 0"
| "failedFiles env i (f # fs) =
     (if fileFails env i f then Suc (failedFiles env (Suc i) fs) else failedFiles env (Suc i) fs)"

fun isFileFailure :: "uploadError \<Rightarrow> bool" where
  "isFileFailure (UnsupportedType n e) = True"
| "isFileFailure (StorageNotFound s) = True"
| "isFileFailure (TooLarge n s) = True"
| "isFileFailure (UploadFailed n m) = True"
| "isFileFailure e = False"

text \<open>
  What the provider answers in a run, when the run gets as far as asking it: the
  conversation and a last user message exist, there is something to send, and the time
  zone of the message is valid.
\<close>

definition turnStream :: "turnEnv \<Rightarrow> conversationId \<Rightarrow> world \<Rightarrow> providerResponse option" where
  "turnStream ev cid w =
     (case conversations w cid of
        None \<Rightarrow> None
      | Some conv \<Rightarrow>
          (case getLastUserMessage cid w of
             None \<Rightarrow> None
           | Some lm \<Rightarrow>
               if buildInput lm \<noteq> [] \<and> validTimeZone ev (orDefault (timezone lm) ''UTC'')
               then Some (provider ev (buildRequest conv lm (selectModel lm)))
               else None))"

section \<open>Example states\<close>

definition exampleConversation :: conversation where
  "exampleConversation =
     \<lparr>userId = 1, name = ''New Chat'', lastResponseId = None, vectorStoreId = None,
      updatedTime = Some 5\<rparr>"

definition exampleAssistantMessage :: message where
  "exampleAssistantMessage =
     \<lparr>conversationId = 1, author = Assistant, content = [], status = Some Typing,
      fileIds = None, uploadedFileNames = None, uploadedFiles = None,
      openaiResponseId = None, vectorStoreFileIds = None, webSearchEnabled = None,
      model = None, thinkingIntensity = None, citations = None, reasoningSummary = None,
      timezone = None\<rparr>"

definition exampleUserMessage :: message where
  "exampleUserMessage =
     \<lparr>conversationId = 1, author = User, content = ''Hi'', status = None,
      fileIds = None, uploadedFileNames = None, uploadedFiles = None,
      openaiResponseId = None, vectorStoreFileIds = None, webSearchEnabled = None,
      model = None, thinkingIntensity = None, citations = None, reasoningSummary = None,
      timezone = None\<rparr>"

text \<open>Users 1 and 2; user 1 owns conversation 1, which holds an assistant message that is typing.\<close>

definition exampleWorld :: world where
  "exampleWorld =
     \<lparr>users = {1, 2}, conversations = [1 \<mapsto> exampleConversation],
      messages = [7 \<mapsto> exampleAssistantMessage], nextId = 8, fileMessageMappings = [],
      scheduled = [], console = []\<rparr>"

text \<open>
  An index entry for the file \<open>file-abc\<close>, uploaded by user 2 and first used in
  conversation 20, message 9.
\<close>

definition exampleMapping :: fileMessageMapping where
  "exampleMapping =
     \<lparr>openaiFileId = ''file-abc'', fileName = ''a.pdf'', fileType = UserUpload,
      uploadedBy = Some 2, storageId = Some 4, firstUsedInConversationId = Some 20,
      firstUsedInMessageId = Some 9, fileMimeType = None, fileSize = None, uploadedAt = 0\<rparr>"

definition exampleRecordArgs :: createUserFileMappingArgs where
  "exampleRecordArgs =
     \<lparr>cm_openaiFileId = ''file-abc'', cm_fileName = ''a.pdf'', cm_uploadedBy = 1,
      cm_storageId = 4, cm_fileMimeType = None, cm_fileSize = None,
      cm_firstUsedInConversationId = Some 1, cm_firstUsedInMessageId = Some 9\<rparr>"

text \<open>
  Conversation 1 with one user message, "Hi", and no continuation token; a provider that
  answers every request with the given response; the time zone UTC is valid.
\<close>

definition exampleTurnWorld :: world where
  "exampleTurnWorld =
     \<lparr>users = {1, 2}, conversations = [1 \<mapsto> exampleConversation],
      messages = [0 \<mapsto> exampleUserMessage], nextId = 1, fileMessageMappings = [],
      scheduled = [], console = []\<rparr>"

definition exampleTurnEnv :: "providerResponse \<Rightarrow> turnEnv" where
  "exampleTurnEnv r = \<lparr>provider = (\<lambda>rq. r), validTimeZone = (\<lambda>tz. tz = ''UTC''), turnNow = 9\<rparr>"

text \<open>
  A call by user 1 on conversation 1 with the given files; every blob exists and has 100
  bytes, the provider accepts every upload and names the file at position \<open>i\<close> by
  \<open>i\<close> letters x, and the vector store is created, or not, as \<open>vs\<close> says.
\<close>

definition exampleUploadEnv :: "string option \<Rightarrow> uploadEnv" where
  "exampleUploadEnv vs =
     \<lparr>ue_auth = Some 1, ue_storageGet = (\<lambda>s. Some 100), ue_vectorStoresCreate = vs,
      ue_filesCreate = (\<lambda>i f. Inr (replicate i CHR ''x'')),
      ue_vectorStoreFilesCreate = (\<lambda>v f. True), ue_storeNow = 9, ue_mappingNow = 9\<rparr>"

definition exampleUploadArgs :: "convexFile list \<Rightarrow> uploadArgs" where
  "exampleUploadArgs fs =
     \<lparr>ua_conversationId = 1, ua_content = ''Read this'', ua_uploadedConvexFiles = fs,
      ua_webSearchEnabled = None, ua_model = None, ua_thinkingIntensity = None,
      ua_timezone = None\<rparr>"

section \<open>Verification\<close>

subsection \<open>Message append engine\<close>

lemma appendCap_messages:
  "messages w mid = Some m \<Longrightarrow>
   messages (appendMessageContentCap cap mid d w) =
     (messages w)(mid \<mapsto> m\<lparr>content := content m @ take (cap - length (content m)) d\<rparr>)"
  by (auto simp: appendMessageContentCap_def logTo_def Let_def nat_diff_distrib' fun_upd_idem)

lemma appendCap_frame:
  "conversations (appendMessageContentCap cap mid d w) = conversations w \<and>
   nextId (appendMessageContentCap cap mid d w) = nextId w \<and>
   users (appendMessageContentCap cap mid d w) = users w \<and>
   fileMessageMappings (appendMessageContentCap cap mid d w) = fileMessageMappings w \<and>
   scheduled (appendMessageContentCap cap mid d w) = scheduled w"
  by (simp add: appendMessageContentCap_def logTo_def Let_def split: option.split)

lemma appendCap_sequence:
  "messages w mid = Some m \<Longrightarrow>
   messages (foldl (\<lambda>v d. appendMessageContentCap cap mid d v) w ds) =
     (messages w)(mid \<mapsto> m\<lparr>content := content m @ take (cap - length (content m)) (concat ds)\<rparr>)"
proof (induction ds arbitrary: w m)
  case Nil
  then show ?case by (simp add: fun_upd_idem)
next
  case (Cons d ds)
  let ?m1 = "m\<lparr>content := content m @ take (cap - length (content m)) d\<rparr>"
  let ?w1 = "appendMessageContentCap cap mid d w"
  have m1: "messages ?w1 = (messages w)(mid \<mapsto> ?m1)"
    using Cons.prems by (rule appendCap_messages)
  then have "messages ?w1 mid = Some ?m1" by simp
  from Cons.IH [OF this]
  have "messages (foldl (\<lambda>v d. appendMessageContentCap cap mid d v) ?w1 ds) =
     (messages ?w1)(mid \<mapsto> ?m1\<lparr>content := content ?m1 @ take (cap - length (content ?m1)) (concat ds)\<rparr>)" .
  then have step: "messages (foldl (\<lambda>v d. appendMessageContentCap cap mid d v) ?w1 ds) =
     (messages w)(mid \<mapsto> ?m1\<lparr>content := content ?m1 @ take (cap - length (content ?m1)) (concat ds)\<rparr>)"
    by (simp only: m1 fun_upd_upd)
  have "content ?m1 @ take (cap - length (content ?m1)) (concat ds) =
        content m @ take (cap - length (content m)) (concat (d # ds))"
    by (cases "length d \<le> cap - length (content m)") (auto simp: min_def)
  with step show ?case by simp
qed


text \<open>
  C2. A sequence of appends leaves the message with its content followed by the longest
  prefix of the concatenated deltas that fits under the cap; an append to a message at or
  over the cap leaves the message store as it is. The function returns a store for every
  input: there is no throw in it.
\<close>

theorem appendMessageContent_saturates:
  assumes "messages w mid = Some m"
  shows "messages (foldl (\<lambda>v d. appendMessageContent mid d v) w ds) =
           (messages w)(mid \<mapsto>
              m\<lparr>content := content m @ take (50 * 1024 - length (content m)) (concat ds)\<rparr>) \<and>
         messages (foldl (\<lambda>v d. appendMessageContentCap cap mid d v) w ds) =
           (messages w)(mid \<mapsto>
              m\<lparr>content := content m @ take (cap - length (content m)) (concat ds)\<rparr>) \<and>
         (if cap \<le> length (content m)
          then messages (appendMessageContentCap cap mid d w) = messages w
          else messages (appendMessageContentCap cap mid d w) mid =
                 Some (m\<lparr>content := take cap (content m @ d)\<rparr>))"
proof -
  have a: "messages (foldl (\<lambda>v d. appendMessageContentCap cap mid d v) w ds) =
           (messages w)(mid \<mapsto>
              m\<lparr>content := content m @ take (cap - length (content m)) (concat ds)\<rparr>)" for cap
    using assms by (rule appendCap_sequence)
  have b: "messages (appendMessageContentCap cap mid d w) =
           (messages w)(mid \<mapsto> m\<lparr>content := content m @ take (cap - length (content m)) d\<rparr>)"
    using assms by (rule appendCap_messages)
  have c: "cap \<le> length (content m) \<Longrightarrow> messages (appendMessageContentCap cap mid d w) = messages w"
    using assms by (simp add: b fun_upd_idem)
  have d: "\<not> cap \<le> length (content m) \<Longrightarrow>
           messages (appendMessageContentCap cap mid d w) mid =
             Some (m\<lparr>content := take cap (content m @ d)\<rparr>)"
    by (simp add: b)
  show ?thesis
    using a [of "50 * 1024"] a [of cap] c d
    by (simp add: appendMessageContent_def MAX_MESSAGE_SIZE_def)
qed

theorem appendMessageContent_saturates_witness:
  "messages exampleWorld 7 = Some exampleAssistantMessage \<and>
   messages (foldl (\<lambda>v d. appendMessageContentCap 10 7 d v) exampleWorld
               [''hello '', ''world'', ''!!!'']) 7 =
     Some (exampleAssistantMessage\<lparr>content := ''hello worl''\<rparr>) \<and>
   messages (foldl (\<lambda>v d. appendMessageContentCap 10 7 d v) exampleWorld
               [''hello '', ''world'']) 7 =
     Some (exampleAssistantMessage\<lparr>content := ''hello worl''\<rparr>)"
proof -
  have h: "messages exampleWorld 7 = Some exampleAssistantMessage"
    by (simp add: exampleWorld_def)
  have c0: "content exampleAssistantMessage = []"
    by (simp add: exampleAssistantMessage_def)
  show ?thesis
    using h
      appendMessageContent_saturates [OF h, of "[''hello '', ''world'', ''!!!'']" 10 "[]"]
      appendMessageContent_saturates [OF h, of "[''hello '', ''world'']" 10 "[]"]
    by (simp add: c0)
qed

text \<open>
  C9. When the message row does not exist, each of the three mutations, called with the
  arguments that it declares, returns with the store as it was and one more warning on
  the console.
\<close>

theorem missing_message_is_dropped:
  assumes "messages w mid = None"
  shows "appendMessageContent mid d w = w\<lparr>console := console w @ [WarnMessageNotFoundForAppending mid]\<rparr> \<and>
         markMessageComplete (args\<lparr>mc_messageId := mid\<rparr>) w =
           w\<lparr>console := console w @ [WarnMessageNotFoundForComplete mid]\<rparr> \<and>
         markMessageError \<lparr>me_messageId = mid, me_errorDetails = None\<rparr> w =
           Inr (w\<lparr>console := console w @ [WarnMessageNotFoundForError mid]\<rparr>)"
  using assms
  by (simp add: appendMessageContent_def appendMessageContentCap_def markMessageComplete_def
      markMessageError_def markMessageErrorHandler_def logTo_def)

theorem missing_message_is_dropped_witness:
  "messages exampleWorld 3 = None \<and>
   appendMessageContent 3 ''late'' exampleWorld =
     exampleWorld\<lparr>console := [WarnMessageNotFoundForAppending 3]\<rparr> \<and>
   markMessageComplete
     \<lparr>mc_messageId = 3, mc_openaiResponseId = Some ''resp_1'', mc_reasoningSummary = None,
      mc_citations = None, mc_timezone = None\<rparr> exampleWorld =
     exampleWorld\<lparr>console := [WarnMessageNotFoundForComplete 3]\<rparr> \<and>
   markMessageError \<lparr>me_messageId = 3, me_errorDetails = None\<rparr> exampleWorld =
     Inr (exampleWorld\<lparr>console := [WarnMessageNotFoundForError 3]\<rparr>)"
proof -
  have h: "messages exampleWorld 3 = None"
    by (simp add: exampleWorld_def)
  have c: "console exampleWorld = []"
    by (simp add: exampleWorld_def)
  show ?thesis
    using h missing_message_is_dropped [OF h, of "''late''"
      "\<lparr>mc_messageId = 3, mc_openaiResponseId = Some ''resp_1'', mc_reasoningSummary = None,
        mc_citations = None, mc_timezone = None\<rparr>"]
    by (simp add: c)
qed

subsection \<open>File citation index\<close>

lemma createUserFileMapping_cases:
  "createUserFileMapping a t w = Inr w1 \<Longrightarrow>
   length (filter (\<lambda>m. openaiFileId m = cm_openaiFileId a) (fileMessageMappings w1)) = 1"
  by (auto simp: createUserFileMapping_def uniqueByOpenaiFileId_def
      split: list.splits sum.splits option.splits)

lemma createUserFileMapping_existing:
  "length (filter (\<lambda>m. openaiFileId m = cm_openaiFileId a) (fileMessageMappings w)) = 1 \<Longrightarrow>
   createUserFileMapping a t w = Inr w"
  by (auto simp: createUserFileMapping_def uniqueByOpenaiFileId_def
      split: list.splits sum.splits option.splits)

text \<open>
  C8. After a call that recorded or found the entry of a file id, a further call with the
  same file id returns with the store as it is, whatever its other arguments are.
\<close>

theorem createUserFileMapping_first_writer_wins:
  assumes "createUserFileMapping a1 t1 w = Inr w1"
    and "cm_openaiFileId a2 = cm_openaiFileId a1"
  shows "createUserFileMapping a2 t2 w1 = Inr w1"
proof -
  have "length (filter (\<lambda>m. openaiFileId m = cm_openaiFileId a2) (fileMessageMappings w1)) = 1"
    using createUserFileMapping_cases [OF assms(1)] assms(2) by simp
  then show ?thesis by (rule createUserFileMapping_existing)
qed

theorem createUserFileMapping_first_writer_wins_witness:
  "createUserFileMapping exampleRecordArgs 100 exampleWorld =
     Inr (exampleWorld\<lparr>fileMessageMappings :=
            [exampleMapping\<lparr>uploadedBy := Some 1, firstUsedInConversationId := Some 1,
                            uploadedAt := 100\<rparr>]\<rparr>) \<and>
   createUserFileMapping
     (exampleRecordArgs\<lparr>cm_fileName := ''renamed.pdf'', cm_uploadedBy := 2, cm_storageId := 5,
                        cm_firstUsedInConversationId := Some 20,
                        cm_firstUsedInMessageId := Some 30\<rparr>) 200
     (exampleWorld\<lparr>fileMessageMappings :=
            [exampleMapping\<lparr>uploadedBy := Some 1, firstUsedInConversationId := Some 1,
                            uploadedAt := 100\<rparr>]\<rparr>) =
     Inr (exampleWorld\<lparr>fileMessageMappings :=
            [exampleMapping\<lparr>uploadedBy := Some 1, firstUsedInConversationId := Some 1,
                            uploadedAt := 100\<rparr>]\<rparr>)"
proof -
  have first: "createUserFileMapping exampleRecordArgs 100 exampleWorld =
     Inr (exampleWorld\<lparr>fileMessageMappings :=
            [exampleMapping\<lparr>uploadedBy := Some 1, firstUsedInConversationId := Some 1,
                            uploadedAt := 100\<rparr>]\<rparr>)"
    by (simp add: createUserFileMapping_def uniqueByOpenaiFileId_def exampleRecordArgs_def
        exampleWorld_def exampleMapping_def)
  have same: "cm_openaiFileId
     (exampleRecordArgs\<lparr>cm_fileName := ''renamed.pdf'', cm_uploadedBy := 2, cm_storageId := 5,
                        cm_firstUsedInConversationId := Some 20,
                        cm_firstUsedInMessageId := Some 30\<rparr>) = cm_openaiFileId exampleRecordArgs"
    by simp
  show ?thesis
    using first createUserFileMapping_first_writer_wins [OF first same, of 200] by simp
qed

text \<open>
  C7. A requester who is not logged in gets the error of the login check, and a
  requester whose requested conversation is missing or owned by someone else gets the
  access-denied error for the conversation, whatever the index holds. For a requester who
  is logged in and owns the requested conversation: no entry gives null; an entry first
  used in another conversation gives null, whoever uploaded it; an entry that is not
  scoped to another conversation and was uploaded by someone else gives the access-denied
  error for the file.
\<close>

theorem findUserMessageByFileId_scoping:
  "(auth = None \<longrightarrow>
      findUserMessageByFileIdImpl auth cid fid w = Inl UserNotAuthenticated) \<and>
   (auth = Some u \<and> u \<notin> users w \<longrightarrow>
      findUserMessageByFileIdImpl auth cid fid w = Inl UserNotFound) \<and>
   (auth = Some u \<and> u \<in> users w \<and> conversations w cid = None \<longrightarrow>
      findUserMessageByFileIdImpl auth cid fid w = Inl ConversationAccessDenied) \<and>
   (auth = Some u \<and> u \<in> users w \<and> conversations w cid = Some conv \<and> userId conv \<noteq> u \<longrightarrow>
      findUserMessageByFileIdImpl auth cid fid w = Inl ConversationAccessDenied) \<and>
   (auth = Some u \<and> u \<in> users w \<and> conversations w cid = Some conv \<and> userId conv = u \<longrightarrow>
      (filter (\<lambda>m. openaiFileId m = fid) (fileMessageMappings w) = [] \<longrightarrow>
         findUserMessageByFileIdImpl auth cid fid w = Inr None) \<and>
      (filter (\<lambda>m. openaiFileId m = fid) (fileMessageMappings w) = [fm] \<and>
       firstUsedInConversationId fm = Some other \<and> other \<noteq> cid \<longrightarrow>
         findUserMessageByFileIdImpl auth cid fid w = Inr None) \<and>
      (filter (\<lambda>m. openaiFileId m = fid) (fileMessageMappings w) = [fm] \<and>
       (firstUsedInConversationId fm = None \<or> firstUsedInConversationId fm = Some cid) \<and>
       uploadedBy fm \<noteq> Some u \<longrightarrow>
         findUserMessageByFileIdImpl auth cid fid w = Inl FileAccessDenied))"
  by (cases "fileType fm")
     (auto simp: findUserMessageByFileIdImpl_def uniqueByOpenaiFileId_def getLoggedInUser_def)

theorem findUserMessageByFileId_scoping_witness:
  "findUserMessageByFileIdImpl None 1 ''file-abc''
     (exampleWorld\<lparr>fileMessageMappings := [exampleMapping]\<rparr>) = Inl UserNotAuthenticated \<and>
   findUserMessageByFileIdImpl (Some 5) 1 ''file-abc''
     (exampleWorld\<lparr>fileMessageMappings := [exampleMapping]\<rparr>) = Inl UserNotFound \<and>
   findUserMessageByFileIdImpl (Some 1) 99 ''file-xyz''
     (exampleWorld\<lparr>fileMessageMappings := [exampleMapping]\<rparr>) = Inl ConversationAccessDenied \<and>
   findUserMessageByFileIdImpl (Some 2) 1 ''file-xyz''
     (exampleWorld\<lparr>fileMessageMappings := [exampleMapping]\<rparr>) = Inl ConversationAccessDenied \<and>
   findUserMessageByFileIdImpl (Some 1) 1 ''file-xyz''
     (exampleWorld\<lparr>fileMessageMappings := [exampleMapping]\<rparr>) = Inr None \<and>
   findUserMessageByFileIdImpl (Some 1) 1 ''file-abc''
     (exampleWorld\<lparr>fileMessageMappings := [exampleMapping\<lparr>uploadedBy := Some 1\<rparr>]\<rparr>) = Inr None \<and>
   findUserMessageByFileIdImpl (Some 1) 1 ''file-abc''
     (exampleWorld\<lparr>fileMessageMappings := [exampleMapping\<lparr>firstUsedInConversationId := Some 1\<rparr>]\<rparr>) =
     Inl FileAccessDenied"
proof -
  let ?w = "\<lambda>fm. exampleWorld\<lparr>fileMessageMappings := [fm]\<rparr>"
  note defs = exampleWorld_def exampleConversation_def exampleMapping_def
  have t1: "findUserMessageByFileIdImpl None 1 ''file-abc'' (?w exampleMapping) =
              Inl UserNotAuthenticated"
    using findUserMessageByFileId_scoping [where auth = None and cid = 1
        and fid = "''file-abc''" and w = "?w exampleMapping"]
    by simp
  have t2: "findUserMessageByFileIdImpl (Some 5) 1 ''file-abc'' (?w exampleMapping) =
              Inl UserNotFound"
    using findUserMessageByFileId_scoping [where auth = "Some 5" and u = 5 and cid = 1
        and fid = "''file-abc''" and w = "?w exampleMapping"]
    by (simp add: defs)
  have t3: "findUserMessageByFileIdImpl (Some 1) 99 ''file-xyz'' (?w exampleMapping) =
              Inl ConversationAccessDenied"
    using findUserMessageByFileId_scoping [where auth = "Some 1" and u = 1 and cid = 99
        and fid = "''file-xyz''" and w = "?w exampleMapping"]
    by (simp add: defs)
  have t4: "findUserMessageByFileIdImpl (Some 2) 1 ''file-xyz'' (?w exampleMapping) =
              Inl ConversationAccessDenied"
    using findUserMessageByFileId_scoping [where auth = "Some 2" and u = 2 and cid = 1
        and conv = exampleConversation and fid = "''file-xyz''" and w = "?w exampleMapping"]
    by (simp add: defs)
  have t5: "findUserMessageByFileIdImpl (Some 1) 1 ''file-xyz'' (?w exampleMapping) = Inr None"
    using findUserMessageByFileId_scoping [where auth = "Some 1" and u = 1 and cid = 1
        and conv = exampleConversation and fid = "''file-xyz''" and w = "?w exampleMapping"
        and fm = exampleMapping and other = 20]
    by (simp add: defs)
  have t6: "findUserMessageByFileIdImpl (Some 1) 1 ''file-abc''
              (?w (exampleMapping\<lparr>uploadedBy := Some 1\<rparr>)) = Inr None"
    using findUserMessageByFileId_scoping [where auth = "Some 1" and u = 1 and cid = 1
        and conv = exampleConversation and fid = "''file-abc''"
        and w = "?w (exampleMapping\<lparr>uploadedBy := Some 1\<rparr>)"
        and fm = "exampleMapping\<lparr>uploadedBy := Some 1\<rparr>" and other = 20]
    by (simp add: defs)
  have t7: "findUserMessageByFileIdImpl (Some 1) 1 ''file-abc''
              (?w (exampleMapping\<lparr>firstUsedInConversationId := Some 1\<rparr>)) =
              Inl FileAccessDenied"
    using findUserMessageByFileId_scoping [where auth = "Some 1" and u = 1 and cid = 1
        and conv = exampleConversation and fid = "''file-abc''"
        and w = "?w (exampleMapping\<lparr>firstUsedInConversationId := Some 1\<rparr>)"
        and fm = "exampleMapping\<lparr>firstUsedInConversationId := Some 1\<rparr>" and other = 20]
    by (simp add: defs)
  show ?thesis
    using t1 t2 t3 t4 t5 t6 t7 by simp
qed

theorem findUserMessageByFileId_counterexample:
  "uploadedBy exampleMapping \<noteq> Some 1 \<and>
   findUserMessageByFileIdImpl (Some 1) 1 ''file-abc''
     (exampleWorld\<lparr>fileMessageMappings := [exampleMapping]\<rparr>) = Inr None \<and>
   findUserMessageByFileIdImpl (Some 2) 1 ''file-xyz''
     (exampleWorld\<lparr>fileMessageMappings := [exampleMapping]\<rparr>) = Inl ConversationAccessDenied"
  by (simp add: findUserMessageByFileIdImpl_def uniqueByOpenaiFileId_def getLoggedInUser_def
      exampleWorld_def exampleMapping_def exampleConversation_def)

subsection \<open>Activity time and error detail\<close>

lemma markMessageComplete_conversations:
  "conversations (markMessageComplete args w) = conversations w"
  by (simp add: markMessageComplete_def logTo_def split: option.split)

lemma storeUserMessage_updatedTime:
  "conversations w cid = Some c \<Longrightarrow> su_conversationId args = cid \<Longrightarrow>
   \<exists>w'. storeUserMessage args now w = Inr w' \<and>
        conversations w' = (conversations w)(cid \<mapsto> c\<lparr>updatedTime := Some now\<rparr>)"
  by (simp add: storeUserMessage_def insertMessage_def patchUpdatedTime_def)

text \<open>
  C5. In the example state the assistant message 7 of conversation 1 is typing and the
  conversation was last active at time 5. \<open>markMessageComplete\<close> sets the status to
  completed and leaves the conversation, with its \<open>updatedTime\<close>, as it was;
  \<open>storeUserMessage\<close> at time 9 on the same state writes 9, and so does
  \<open>storeAiMessage\<close> with the status completed.
\<close>

theorem markMessageComplete_keeps_updatedTime:
  "map_option status
     (messages (markMessageComplete
        \<lparr>mc_messageId = 7, mc_openaiResponseId = Some ''resp_1'', mc_reasoningSummary = None,
         mc_citations = None, mc_timezone = None\<rparr> exampleWorld) 7) = Some (Some Completed) \<and>
   map_option updatedTime
     (conversations (markMessageComplete
        \<lparr>mc_messageId = 7, mc_openaiResponseId = Some ''resp_1'', mc_reasoningSummary = None,
         mc_citations = None, mc_timezone = None\<rparr> exampleWorld) 1) = Some (Some 5) \<and>
   (case storeUserMessage
           \<lparr>su_conversationId = 1, su_content = ''Hi'', su_fileIds = None,
            su_uploadedFileNames = None, su_timezone = None, su_webSearchEnabled = None,
            su_model = None, su_thinkingIntensity = None\<rparr> 9 exampleWorld of
      Inl e \<Rightarrow> None
    | Inr w \<Rightarrow> map_option updatedTime (conversations w 1)) = Some (Some 9) \<and>
   (case storeAiMessage
           \<lparr>sa_conversationId = 1, sa_content = ''Hello'', sa_status = Some Completed,
            sa_openaiResponseId = None, sa_reasoningSummary = None, sa_citations = None,
            sa_timezone = None\<rparr> 9 exampleWorld of
      Inl e \<Rightarrow> None
    | Inr (mid, w) \<Rightarrow> map_option updatedTime (conversations w 1)) = Some (Some 9)"
  by (simp add: markMessageComplete_def storeUserMessage_def storeAiMessage_def
      insertMessage_def patchUpdatedTime_def exampleWorld_def exampleConversation_def
      exampleAssistantMessage_def patchOptional_def)

text \<open>
  C6. In the example state message 7 is typing. \<open>markMessageError\<close> called with an error
  detail, as the newer \<open>generateAiResponse\<close> calls it, throws on the validation of its
  arguments and writes nothing, so the message stays typing. Called with the message id
  alone it sets the status to error and changes nothing else of the message: there is no
  field that would hold a detail.
\<close>

theorem markMessageError_drops_errorDetails:
  "markMessageError
     \<lparr>me_messageId = 7,
      me_errorDetails = Some ''Rate limit exceeded. Please try again in a moment.''\<rparr>
     exampleWorld = Inl ArgumentValidationError \<and>
   statusOf exampleWorld 7 = Some Typing \<and>
   markMessageError \<lparr>me_messageId = 7, me_errorDetails = None\<rparr> exampleWorld =
     Inr (exampleWorld\<lparr>messages := [7 \<mapsto> exampleAssistantMessage\<lparr>status := Some Error\<rparr>]\<rparr>)"
  by (simp add: markMessageError_def markMessageErrorHandler_def exampleWorld_def
      exampleAssistantMessage_def statusOf_def)

subsection \<open>Citation accumulation\<close>

lemma list_ex_isFileCitationOf:
  "list_ex (isFileCitationOf fid) cs \<longleftrightarrow> Inl fid \<in> citationKey ` set cs"
  by (induction cs) (auto simp: isFileCitationOf_def citationKey_def split: citation.splits)

lemma list_ex_isUrlCitationOf:
  "list_ex (isUrlCitationOf u) cs \<longleftrightarrow> Inr u \<in> citationKey ` set cs"
  by (induction cs) (auto simp: isUrlCitationOf_def citationKey_def split: citation.splits)

lemma addAnnotation_toCitation:
  "addAnnotation cs a =
     (case toCitation a of
        None \<Rightarrow> cs
      | Some c \<Rightarrow> if citationKey c \<in> citationKey ` set cs then cs else cs @ [c])"
  by (cases a)
     (simp_all add: list_ex_isFileCitationOf list_ex_isUrlCitationOf citationKey_def Let_def)

lemma addAnnotations_firstSeen:
  "addAnnotations acc anns =
     acc @ filter (\<lambda>c. citationKey c \<notin> citationKey ` set acc) (firstSeen anns)"
proof (induction anns arbitrary: acc)
  case Nil
  then show ?case by (simp add: addAnnotations_def)
next
  case (Cons a anns)
  have unfold: "addAnnotations acc (a # anns) = addAnnotations (addAnnotation acc a) anns"
    by (simp add: addAnnotations_def)
  show ?case
  proof (cases "toCitation a")
    case None
    then show ?thesis
      using Cons.IH [of acc] by (simp add: unfold addAnnotation_toCitation)
  next
    case (Some c)
    show ?thesis
    proof (cases "citationKey c \<in> citationKey ` set acc")
      case True
      then have "filter (\<lambda>c'. citationKey c' \<notin> citationKey ` set acc)
                   (filter (\<lambda>c'. citationKey c' \<noteq> citationKey c) (firstSeen anns)) =
                 filter (\<lambda>c'. citationKey c' \<notin> citationKey ` set acc) (firstSeen anns)"
        by (auto intro: filter_cong)
      with True Some show ?thesis
        using Cons.IH [of acc] by (simp add: unfold addAnnotation_toCitation)
    next
      case False
      have "filter (\<lambda>c'. citationKey c' \<notin> citationKey ` set (acc @ [c])) (firstSeen anns) =
            filter (\<lambda>c'. citationKey c' \<notin> citationKey ` set acc)
              (filter (\<lambda>c'. citationKey c' \<noteq> citationKey c) (firstSeen anns))"
        by (auto intro: filter_cong)
      with False Some show ?thesis
        using Cons.IH [of "acc @ [c]"] by (simp add: unfold addAnnotation_toCitation)
    qed
  qed
qed

lemma firstSeen_keys_distinct: "distinct (map citationKey (firstSeen anns))"
proof (induction anns)
  case Nil
  then show ?case by simp
next
  case (Cons a anns)
  then show ?case
    by (cases "toCitation a") (auto simp: distinct_map_filter)
qed

lemma addAnnotations_append:
  "addAnnotations cs (xs @ ys) = addAnnotations (addAnnotations cs xs) ys"
  by (simp add: addAnnotations_def)

lemma streamLoop_citations:
  "ts_citations (fst (snd (streamLoop cid mid evs (s, w)))) =
     addAnnotations (ts_citations s) (streamAnnotations evs)"
proof (induction evs arbitrary: s w)
  case Nil
  then show ?case by (simp add: addAnnotations_def)
next
  case (Cons e evs)
  show ?case
  proof (cases e)
    case (ResponseCompleted out)
    then show ?thesis by (simp add: handleCompleted_def Let_def)
  next
    case (OutputTextDone anns)
    then show ?thesis
      using Cons.IH by (cases anns) (simp_all add: addAnnotations_append)
  qed (use Cons.IH in \<open>simp_all add: Let_def\<close>)
qed

text \<open>
  C3. The accumulated citation list is the list of first occurrences, in their order,
  with the defaults filled in; its keys are distinct; the list that the streaming loop
  holds at its end is the one of the annotations that the stream delivered.
\<close>

theorem citations_first_seen_deduplicated:
  "addAnnotations [] anns = firstSeen anns \<and>
   distinct (map citationKey (addAnnotations [] anns)) \<and>
   ts_citations (fst (snd (streamLoop cid mid evs (initialTurnState, w)))) =
     firstSeen (streamAnnotations evs) \<and>
   addAnnotations []
     [FileCitationAnnotation ''f1'' (Some ''a.pdf''), FileCitationAnnotation ''f1'' (Some ''a.pdf''),
      UrlCitationAnnotation ''u1'' (Some ''t1''),
      FileCitationAnnotation ''f1'' (Some ''renamed.pdf'')] =
     [FileCitation ''f1'' ''a.pdf'', UrlCitation ''u1'' ''t1''] \<and>
   addAnnotations [] [FileCitationAnnotation ''f2'' None, UrlCitationAnnotation ''u2'' None] =
     [FileCitation ''f2'' ''unknown'', UrlCitation ''u2'' ''Web Result'']"
proof -
  have a: "addAnnotations [] xs = firstSeen xs" for xs
    using addAnnotations_firstSeen [of "[]" xs] by simp
  have b: "ts_citations (fst (snd (streamLoop cid mid evs (initialTurnState, w)))) =
           firstSeen (streamAnnotations evs)"
    by (simp add: streamLoop_citations a initialTurnState_def)
  have c: "addAnnotations []
     [FileCitationAnnotation ''f1'' (Some ''a.pdf''), FileCitationAnnotation ''f1'' (Some ''a.pdf''),
      UrlCitationAnnotation ''u1'' (Some ''t1''),
      FileCitationAnnotation ''f1'' (Some ''renamed.pdf'')] =
     [FileCitation ''f1'' ''a.pdf'', UrlCitation ''u1'' ''t1'']"
    by (simp add: addAnnotations_def orDefault_def isFileCitationOf_def isUrlCitationOf_def)
  have d: "addAnnotations [] [FileCitationAnnotation ''f2'' None, UrlCitationAnnotation ''u2'' None] =
     [FileCitation ''f2'' ''unknown'', UrlCitation ''u2'' ''Web Result'']"
    by (simp add: addAnnotations_def orDefault_def isFileCitationOf_def isUrlCitationOf_def)
  show ?thesis
    using a [of anns] b c d firstSeen_keys_distinct [of anns] by simp
qed

subsection \<open>The streaming loop\<close>

lemma appendMessageContent_conversations:
  "conversations (appendMessageContent mid d w) = conversations w"
  by (simp add: appendMessageContent_def appendMessageContentCap_def logTo_def Let_def
      split: option.split)

lemma appendMessageContent_status:
  "statusOf (appendMessageContent mid' d w) mid = statusOf w mid"
  by (simp add: appendMessageContent_def appendMessageContentCap_def logTo_def Let_def statusOf_def
      split: option.split)

lemma appendMessageContent_exists:
  "messages w mid \<noteq> None \<Longrightarrow> messages (appendMessageContent mid' d w) mid \<noteq> None"
  by (simp add: appendMessageContent_def appendMessageContentCap_def logTo_def Let_def
      split: option.split)

lemma updateReasoningSummary_conversations:
  "conversations (updateReasoningSummary mid r w) = conversations w"
  by (simp add: updateReasoningSummary_def logTo_def split: option.split)

lemma updateReasoningSummary_status:
  "statusOf (updateReasoningSummary mid' r w) mid = statusOf w mid"
  by (simp add: updateReasoningSummary_def logTo_def statusOf_def split: option.split)

lemma updateReasoningSummary_exists:
  "messages w mid \<noteq> None \<Longrightarrow> messages (updateReasoningSummary mid' r w) mid \<noteq> None"
  by (simp add: updateReasoningSummary_def logTo_def split: option.split)

lemma markMessageError_conversations:
  "conversations (markMessageErrorHandler mid w) = conversations w"
  by (simp add: markMessageErrorHandler_def logTo_def split: option.split)

lemma markMessageError_status:
  "messages w mid \<noteq> None \<Longrightarrow> statusOf (markMessageErrorHandler mid w) mid = Some Error"
  by (auto simp: markMessageErrorHandler_def statusOf_def)

lemma markMessageComplete_status:
  "messages w mid \<noteq> None \<Longrightarrow> mc_messageId args = mid \<Longrightarrow>
   statusOf (markMessageComplete args w) mid = Some Completed"
  by (auto simp: markMessageComplete_def statusOf_def)

lemma markMessageComplete_exists:
  "messages w mid \<noteq> None \<Longrightarrow> messages (markMessageComplete args w) mid \<noteq> None"
  by (simp add: markMessageComplete_def logTo_def split: option.split)

lemma updateConversationResponseId_messages:
  "messages (updateConversationResponseId cid r w) = messages w"
  by (simp add: updateConversationResponseId_def logTo_def split: option.split)

lemma updateConversationResponseId_conversations:
  "conversations w cid = Some conv \<Longrightarrow>
   conversations (updateConversationResponseId cid r w) =
     (conversations w)(cid \<mapsto> conv\<lparr>lastResponseId := Some r\<rparr>)"
  by (simp add: updateConversationResponseId_def)

lemma logTo_fields:
  "conversations (logTo e w) = conversations w" "messages (logTo e w) = messages w"
  "nextId (logTo e w) = nextId w" "statusOf (logTo e w) mid = statusOf w mid"
  by (simp_all add: logTo_def statusOf_def)

lemma handleEvent_conversations:
  "conversations (snd (handleEvent mid e (s, w))) = conversations w"
  by (cases e)
     (simp_all add: Let_def appendMessageContent_conversations
        updateReasoningSummary_conversations split: option.split)

lemma handleEvent_status:
  "statusOf (snd (handleEvent mid e (s, w))) m = statusOf w m"
  by (cases e)
     (simp_all add: Let_def appendMessageContent_status updateReasoningSummary_status
        split: option.split)

lemma handleEvent_exists:
  "messages w m \<noteq> None \<Longrightarrow> messages (snd (handleEvent mid e (s, w))) m \<noteq> None"
  by (cases e)
     (simp_all add: Let_def appendMessageContent_exists updateReasoningSummary_exists
        split: option.split)

lemma handleEvent_state:
  "fullContent (fst (handleEvent mid e (s, w))) =
     fullContent s @ (case e of OutputTextDelta d \<Rightarrow> d | _ \<Rightarrow> [])"
  "ts_openaiResponseId (fst (handleEvent mid e (s, w))) =
     (case e of ResponseCreated r \<Rightarrow> r | _ \<Rightarrow> ts_openaiResponseId s)"
  by (cases e; simp add: Let_def split: option.split)+

lemma handleCompleted_effect:
  assumes "conversations w cid = Some conv" and "messages w mid \<noteq> None"
  shows "conversations (snd (handleCompleted cid mid out (s, w))) =
           (conversations w)(cid \<mapsto> conv\<lparr>lastResponseId := Some (ts_openaiResponseId s)\<rparr>)"
    and "statusOf (snd (handleCompleted cid mid out (s, w))) mid = Some Completed"
    and "messages (snd (handleCompleted cid mid out (s, w))) mid \<noteq> None"
    and "fullContent (fst (handleCompleted cid mid out (s, w))) = fullContent s"
  using assms
  by (simp_all add: handleCompleted_def Let_def updateConversationResponseId_conversations
      markMessageComplete_conversations updateConversationResponseId_messages statusOf_def
      markMessageComplete_exists markMessageComplete_status [unfolded statusOf_def])

lemma not_completed_step:
  assumes "\<forall>out. e \<noteq> ResponseCompleted out"
  shows "streamLoop cid mid (e # evs) sw = streamLoop cid mid evs (handleEvent mid e sw)"
    and "deliversCompleted (e # evs) = deliversCompleted evs"
    and "streamedContent (e # evs) =
           (case e of OutputTextDelta d \<Rightarrow> d | _ \<Rightarrow> []) @ streamedContent evs"
    and "responseIdAtCompleted r (e # evs) =
           responseIdAtCompleted (case e of ResponseCreated i \<Rightarrow> i | _ \<Rightarrow> r) evs"
  using assms by (cases e; simp)+

lemma streamLoop_effect:
  assumes "conversations w cid = Some conv" and "messages w mid \<noteq> None"
  shows "fst (streamLoop cid mid evs (s, w)) = deliversCompleted evs \<and>
         fullContent (fst (snd (streamLoop cid mid evs (s, w)))) = fullContent s @ streamedContent evs \<and>
         messages (snd (snd (streamLoop cid mid evs (s, w)))) mid \<noteq> None \<and>
         conversations (snd (snd (streamLoop cid mid evs (s, w)))) =
           (if deliversCompleted evs
            then (conversations w)(cid \<mapsto>
                   conv\<lparr>lastResponseId := Some (responseIdAtCompleted (ts_openaiResponseId s) evs)\<rparr>)
            else conversations w) \<and>
         statusOf (snd (snd (streamLoop cid mid evs (s, w)))) mid =
           (if deliversCompleted evs then Some Completed else statusOf w mid)"
  using assms
proof (induction evs arbitrary: s w)
  case Nil
  then show ?case by simp
next
  case (Cons e evs)
  show ?case
  proof (cases "\<exists>out. e = ResponseCompleted out")
    case True
    then obtain out where "e = ResponseCompleted out" by blast
    then show ?thesis
      using handleCompleted_effect [OF Cons.prems, where out = out and s = s] by simp
  next
    case False
    then have nc: "\<forall>out. e \<noteq> ResponseCompleted out" by simp
    obtain s' w' where h: "handleEvent mid e (s, w) = (s', w')"
      by (cases "handleEvent mid e (s, w)")
    have c: "conversations w' cid = Some conv" "messages w' mid \<noteq> None"
      "conversations w' = conversations w" "statusOf w' mid = statusOf w mid"
      using handleEvent_conversations [of mid e s w] handleEvent_status [of mid e s w mid]
        handleEvent_exists [of w mid mid e s] h Cons.prems by simp_all
    have st: "fullContent s' = fullContent s @ (case e of OutputTextDelta d \<Rightarrow> d | _ \<Rightarrow> [])"
      "ts_openaiResponseId s' = (case e of ResponseCreated r \<Rightarrow> r | _ \<Rightarrow> ts_openaiResponseId s)"
      using handleEvent_state [of mid e s w] h by simp_all
    show ?thesis
      using Cons.IH [OF c(1) c(2), of s']
      by (simp add: not_completed_step [OF nc] h c(3) c(4) st)
  qed
qed


subsection \<open>The turn\<close>

lemma innerCatch_effect:
  assumes "messages w mid \<noteq> None"
  shows "conversations (innerCatch mid w) = conversations w"
    and "statusOf (innerCatch mid w) mid = Some Error"
proof -
  let ?w1 = "appendMessageContent mid ''Sorry, I encountered an error while generating a response.''
               (logTo ErrDuringGeneration w)"
  have "messages (logTo ErrDuringGeneration w) mid \<noteq> None"
    using assms by (simp add: logTo_fields)
  then have ex: "messages ?w1 mid \<noteq> None" by (rule appendMessageContent_exists)
  show "conversations (innerCatch mid w) = conversations w"
    by (simp add: innerCatch_def markMessageError_conversations
        appendMessageContent_conversations logTo_fields)
  show "statusOf (innerCatch mid w) mid = Some Error"
    unfolding innerCatch_def using ex by (rule markMessageError_status)
qed

text \<open>
  The effect of the inner \<open>try\<close> on the conversations and on the status of the
  assistant message.
\<close>

lemma respond_effect:
  assumes "conversations w cid = Some conv" and "messages w mid \<noteq> None"
  shows "conversations (respond ev cid mid rq w) =
           (case provider ev rq of
              CreateThrows \<Rightarrow> conversations w
            | Stream evs end \<Rightarrow>
                if deliversCompleted evs
                then (conversations w)(cid \<mapsto>
                       conv\<lparr>lastResponseId := Some (responseIdAtCompleted [] evs)\<rparr>)
                else conversations w)"
    and "statusOf (respond ev cid mid rq w) mid =
           (case provider ev rq of
              CreateThrows \<Rightarrow> Some Error
            | Stream evs end \<Rightarrow>
                if (\<not> deliversCompleted evs \<and> end = TransportError) \<or>
                   trim (streamedContent evs) = []
                then Some Error
                else if deliversCompleted evs then Some Completed else statusOf w mid)"
proof -
  show "conversations (respond ev cid mid rq w) =
           (case provider ev rq of
              CreateThrows \<Rightarrow> conversations w
            | Stream evs end \<Rightarrow>
                if deliversCompleted evs
                then (conversations w)(cid \<mapsto>
                       conv\<lparr>lastResponseId := Some (responseIdAtCompleted [] evs)\<rparr>)
                else conversations w)"
  proof (cases "provider ev rq")
    case CreateThrows
    then show ?thesis
      using innerCatch_effect(1) [OF assms(2)] by (simp add: respond_def)
  next
    case (Stream evs fin)
    obtain b s w1 where l: "streamLoop cid mid evs (initialTurnState, w) = (b, s, w1)"
      by (cases "streamLoop cid mid evs (initialTurnState, w)")
    have e: "b = deliversCompleted evs" "messages w1 mid \<noteq> None"
      "conversations w1 =
         (if deliversCompleted evs
          then (conversations w)(cid \<mapsto> conv\<lparr>lastResponseId := Some (responseIdAtCompleted [] evs)\<rparr>)
          else conversations w)"
      using streamLoop_effect [OF assms, of evs initialTurnState] l
      by (simp_all add: initialTurnState_def)
    show ?thesis
      using Stream l e innerCatch_effect(1) [OF e(2)]
      by (simp add: respond_def markMessageError_conversations logTo_fields)
  qed
  show "statusOf (respond ev cid mid rq w) mid =
           (case provider ev rq of
              CreateThrows \<Rightarrow> Some Error
            | Stream evs end \<Rightarrow>
                if (\<not> deliversCompleted evs \<and> end = TransportError) \<or>
                   trim (streamedContent evs) = []
                then Some Error
                else if deliversCompleted evs then Some Completed else statusOf w mid)"
  proof (cases "provider ev rq")
    case CreateThrows
    then show ?thesis
      using innerCatch_effect(2) [OF assms(2)] by (simp add: respond_def)
  next
    case (Stream evs fin)
    obtain b s w1 where l: "streamLoop cid mid evs (initialTurnState, w) = (b, s, w1)"
      by (cases "streamLoop cid mid evs (initialTurnState, w)")
    have e: "b = deliversCompleted evs" "messages w1 mid \<noteq> None"
      "fullContent s = streamedContent evs"
      "statusOf w1 mid = (if deliversCompleted evs then Some Completed else statusOf w mid)"
      using streamLoop_effect [OF assms, of evs initialTurnState] l
      by (simp_all add: initialTurnState_def)
    have ex: "messages (logTo WarnNoContentGenerated w1) mid \<noteq> None"
      using e(2) by (simp add: logTo_fields)
    show ?thesis
      using Stream l e innerCatch_effect(2) [OF e(2)] markMessageError_status [OF ex]
      by (simp add: respond_def)
  qed
qed

text \<open>
  A run whose conversation and last user message exist, with something to send and a
  valid time zone, creates the typing message under the next id and reaches the provider.
\<close>

lemma generateAiResponse_reaches_provider:
  assumes "conversations w cid = Some conv"
    and "getLastUserMessage cid w = Some lm"
    and "buildInput lm \<noteq> []"
    and "validTimeZone ev (orDefault (timezone lm) ''UTC'')"
  shows "\<exists>w1. generateAiResponse ev cid w =
                 Inr (respond ev cid (nextId w) (buildRequest conv lm (selectModel lm)) w1) \<and>
              conversations w1 = conversations w \<and> messages w1 (nextId w) \<noteq> None \<and>
              statusOf w1 (nextId w) = Some Typing"
proof -
  let ?typing = "\<lparr>conversationId = cid, author = Assistant, content = [], status = Some Typing,
      fileIds = None, uploadedFileNames = None, uploadedFiles = None, openaiResponseId = None,
      vectorStoreFileIds = None, webSearchEnabled = None, model = None,
      thinkingIntensity = None, citations = None, reasoningSummary = None, timezone = None\<rparr>"
  let ?w0 = "if isSupportedModel (orDefault (model lm) ''gpt-4.1'') then w
             else logTo (ErrUnsupportedModelFallback (orDefault (model lm) ''gpt-4.1'')) w"
  let ?w1 = "?w0\<lparr>messages := (messages ?w0)(nextId w \<mapsto> ?typing), nextId := Suc (nextId w)\<rparr>"
  have "generateAiResponse ev cid w =
          Inr (respond ev cid (nextId w) (buildRequest conv lm (selectModel lm)) ?w1)"
    using assms
    by (simp add: generateAiResponse_def getConversation_def storeAiMessage_def
        insertMessage_def Let_def logTo_def)
  moreover have "conversations ?w1 = conversations w" by (simp add: logTo_def)
  moreover have "messages ?w1 (nextId w) \<noteq> None" by simp
  moreover have "statusOf ?w1 (nextId w) = Some Typing" by (simp add: statusOf_def)
  ultimately show ?thesis by blast
qed

lemma generateAiResponse_effect:
  assumes "conversations w cid = Some conv"
    and "getLastUserMessage cid w = Some lm"
    and "buildInput lm \<noteq> []"
    and "validTimeZone ev (orDefault (timezone lm) ''UTC'')"
  shows "\<exists>w'. generateAiResponse ev cid w = Inr w' \<and>
           conversations w' =
             (case provider ev (buildRequest conv lm (selectModel lm)) of
                CreateThrows \<Rightarrow> conversations w
              | Stream evs end \<Rightarrow>
                  if deliversCompleted evs
                  then (conversations w)(cid \<mapsto>
                         conv\<lparr>lastResponseId := Some (responseIdAtCompleted [] evs)\<rparr>)
                  else conversations w) \<and>
           statusOf w' (nextId w) =
             (case provider ev (buildRequest conv lm (selectModel lm)) of
                CreateThrows \<Rightarrow> Some Error
              | Stream evs end \<Rightarrow>
                  if (\<not> deliversCompleted evs \<and> end = TransportError) \<or>
                     trim (streamedContent evs) = []
                  then Some Error
                  else if deliversCompleted evs then Some Completed else Some Typing)"
proof -
  obtain w1 where r: "generateAiResponse ev cid w =
      Inr (respond ev cid (nextId w) (buildRequest conv lm (selectModel lm)) w1)"
    and c: "conversations w1 = conversations w" and m: "messages w1 (nextId w) \<noteq> None"
    and t: "statusOf w1 (nextId w) = Some Typing"
    using generateAiResponse_reaches_provider [OF assms] by blast
  have c1: "conversations w1 cid = Some conv" using c assms(1) by simp
  show ?thesis
    using r respond_effect [OF c1 m, of ev "buildRequest conv lm (selectModel lm)"] c t
    by (cases "provider ev (buildRequest conv lm (selectModel lm))") simp_all
qed

text \<open>A run that does not get as far as the provider leaves every continuation token.\<close>

lemma generateAiResponse_without_provider:
  assumes "turnStream ev cid w = None"
  shows "\<exists>w'. generateAiResponse ev cid w = Inr w' \<and>
              (\<forall>c. lastResponseIdOf w' c = lastResponseIdOf w c)"
  using assms
  by (auto simp: generateAiResponse_def turnStream_def getConversation_def storeAiMessage_def
      insertMessage_def outerCatch_def patchUpdatedTime_def logTo_def lastResponseIdOf_def
      Let_def split: option.splits if_splits)

lemma turnStream_Some:
  assumes "turnStream ev cid w = Some r"
  shows "\<exists>conv lm. conversations w cid = Some conv \<and> getLastUserMessage cid w = Some lm \<and>
           buildInput lm \<noteq> [] \<and> validTimeZone ev (orDefault (timezone lm) ''UTC'') \<and>
           provider ev (buildRequest conv lm (selectModel lm)) = r"
  using assms by (auto simp: turnStream_def split: option.splits if_splits)

lemma generateAiResponse_with_provider:
  assumes "turnStream ev cid w = Some r"
  shows "\<exists>w'. generateAiResponse ev cid w = Inr w' \<and>
           (\<forall>c. lastResponseIdOf w' c =
              (case r of
                 CreateThrows \<Rightarrow> lastResponseIdOf w c
               | Stream evs fin \<Rightarrow>
                   if c = cid \<and> deliversCompleted evs
                   then Some (responseIdAtCompleted [] evs) else lastResponseIdOf w c)) \<and>
           statusOf w' (nextId w) =
             (case r of
                CreateThrows \<Rightarrow> Some Error
              | Stream evs fin \<Rightarrow>
                  if (\<not> deliversCompleted evs \<and> fin = TransportError) \<or>
                     trim (streamedContent evs) = []
                  then Some Error
                  else if deliversCompleted evs then Some Completed else Some Typing)"
proof -
  obtain conv lm where h: "conversations w cid = Some conv" "getLastUserMessage cid w = Some lm"
    "buildInput lm \<noteq> []" "validTimeZone ev (orDefault (timezone lm) ''UTC'')"
    and p: "provider ev (buildRequest conv lm (selectModel lm)) = r"
    using turnStream_Some [OF assms] by blast
  obtain w' where g: "generateAiResponse ev cid w = Inr w'"
    and c: "conversations w' =
             (case r of
                CreateThrows \<Rightarrow> conversations w
              | Stream evs fin \<Rightarrow>
                  if deliversCompleted evs
                  then (conversations w)(cid \<mapsto>
                         conv\<lparr>lastResponseId := Some (responseIdAtCompleted [] evs)\<rparr>)
                  else conversations w)"
    and s: "statusOf w' (nextId w) =
             (case r of
                CreateThrows \<Rightarrow> Some Error
              | Stream evs fin \<Rightarrow>
                  if (\<not> deliversCompleted evs \<and> fin = TransportError) \<or>
                     trim (streamedContent evs) = []
                  then Some Error
                  else if deliversCompleted evs then Some Completed else Some Typing)"
    using generateAiResponse_effect [OF h] p by auto
  have "lastResponseIdOf w' c =
              (case r of
                 CreateThrows \<Rightarrow> lastResponseIdOf w c
               | Stream evs fin \<Rightarrow>
                   if c = cid \<and> deliversCompleted evs
                   then Some (responseIdAtCompleted [] evs) else lastResponseIdOf w c)" for c
    using c by (cases r) (simp_all add: lastResponseIdOf_def)
  with g s show ?thesis by blast
qed

lemma exampleTurn_stream:
  "turnStream (exampleTurnEnv r) 1 exampleTurnWorld = Some r" "nextId exampleTurnWorld = 1"
  "lastResponseIdOf exampleTurnWorld 1 = None"
  "turnStream (exampleTurnEnv r) (Suc 0) exampleTurnWorld = Some r"
  "lastResponseIdOf exampleTurnWorld (Suc 0) = None"
  by (simp_all add: turnStream_def exampleTurnWorld_def exampleTurnEnv_def exampleUserMessage_def
      exampleConversation_def getLastUserMessage_def messagesOf_def buildInput_def trim_def
      isWhiteSpace_def orDefault_def lastResponseIdOf_def)

text \<open>
  C4. A turn whose stream delivers no content, or only white space, up to its
  \<open>completed\<close> event (or up to its end) leaves the assistant message, created under the
  next id, with the status error.
\<close>

theorem empty_content_finalizes_as_error:
  assumes "turnStream ev cid w = Some (Stream evs fin)"
    and "trim (streamedContent evs) = []"
  shows "\<exists>w'. generateAiResponse ev cid w = Inr w' \<and> statusOf w' (nextId w) = Some Error"
  using generateAiResponse_with_provider [OF assms(1)] assms(2) by auto

theorem empty_content_finalizes_as_error_witness:
  "turnStream (exampleTurnEnv (Stream [ResponseCreated ''resp_1'', ResponseCompleted []] EndOfStream))
     1 exampleTurnWorld =
     Some (Stream [ResponseCreated ''resp_1'', ResponseCompleted []] EndOfStream) \<and>
   deliversCompleted [ResponseCreated ''resp_1'', ResponseCompleted []] \<and>
   trim (streamedContent [ResponseCreated ''resp_1'', ResponseCompleted []]) = [] \<and>
   \<not> isl (generateAiResponse
            (exampleTurnEnv (Stream [ResponseCreated ''resp_1'', ResponseCompleted []] EndOfStream))
            1 exampleTurnWorld) \<and>
   statusOf (projr (generateAiResponse
            (exampleTurnEnv (Stream [ResponseCreated ''resp_1'', ResponseCompleted []] EndOfStream))
            1 exampleTurnWorld)) 1 = Some Error"
proof -
  have t: "trim (streamedContent [ResponseCreated ''resp_1'', ResponseCompleted []]) = []"
    by (simp add: trim_def)
  show ?thesis
    using t
      exampleTurn_stream(1) [of "Stream [ResponseCreated ''resp_1'', ResponseCompleted []] EndOfStream"]
      empty_content_finalizes_as_error
        [OF exampleTurn_stream(1)
              [of "Stream [ResponseCreated ''resp_1'', ResponseCompleted []] EndOfStream"] t]
    by (auto simp: exampleTurn_stream(2))
qed

text \<open>
  C1. Every run returns. The continuation token of the conversation is the response id
  known at the \<open>completed\<close> event when the stream of the turn delivers one, and no token
  is changed otherwise; the assistant message ends with the status completed exactly when
  the stream delivers a \<open>completed\<close> event behind content that is not blank.
\<close>

theorem continuation_token_follows_completed_event:
  "\<exists>w'. generateAiResponse ev cid w = Inr w' \<and>
     (\<forall>c. lastResponseIdOf w' c =
        (case turnStream ev cid w of
           Some (Stream evs fin) \<Rightarrow>
             if c = cid \<and> deliversCompleted evs
             then Some (responseIdAtCompleted [] evs) else lastResponseIdOf w c
         | _ \<Rightarrow> lastResponseIdOf w c)) \<and>
     (case turnStream ev cid w of
        Some (Stream evs fin) \<Rightarrow>
          (statusOf w' (nextId w) = Some Completed) =
            (deliversCompleted evs \<and> trim (streamedContent evs) \<noteq> [])
      | Some CreateThrows \<Rightarrow> statusOf w' (nextId w) = Some Error
      | None \<Rightarrow> True)"
proof (cases "turnStream ev cid w")
  case None
  then show ?thesis
    using generateAiResponse_without_provider [OF None] by auto
next
  case (Some r)
  then show ?thesis
    using generateAiResponse_with_provider [OF Some] by (cases r) auto
qed

theorem continuation_token_follows_completed_event_witness:
  "lastResponseIdOf exampleTurnWorld 1 = None \<and>
   \<not> isl (generateAiResponse
            (exampleTurnEnv (Stream [ResponseCreated ''resp_1'', OutputTextDelta ''Hello'',
                                     ResponseCompleted []] EndOfStream)) 1 exampleTurnWorld) \<and>
   lastResponseIdOf (projr (generateAiResponse
            (exampleTurnEnv (Stream [ResponseCreated ''resp_1'', OutputTextDelta ''Hello'',
                                     ResponseCompleted []] EndOfStream)) 1 exampleTurnWorld)) 1 =
     Some ''resp_1'' \<and>
   statusOf (projr (generateAiResponse
            (exampleTurnEnv (Stream [ResponseCreated ''resp_1'', OutputTextDelta ''Hello'',
                                     ResponseCompleted []] EndOfStream)) 1 exampleTurnWorld)) 1 =
     Some Completed \<and>
   lastResponseIdOf (projr (generateAiResponse
            (exampleTurnEnv (Stream [ResponseCreated ''resp_1'', OutputTextDelta ''Hel'']
                                    TransportError)) 1 exampleTurnWorld)) 1 = None \<and>
   lastResponseIdOf (projr (generateAiResponse (exampleTurnEnv CreateThrows) 1 exampleTurnWorld)) 1 =
     None"
proof -
  let ?ok = "Stream [ResponseCreated ''resp_1'', OutputTextDelta ''Hello'', ResponseCompleted []]
               EndOfStream"
  let ?cut = "Stream [ResponseCreated ''resp_1'', OutputTextDelta ''Hel''] TransportError"
  have t: "trim ''Hello'' \<noteq> []"
    by (simp add: trim_def isWhiteSpace_def)
  show ?thesis
    using t
      continuation_token_follows_completed_event [of "exampleTurnEnv ?ok" 1 exampleTurnWorld]
      continuation_token_follows_completed_event [of "exampleTurnEnv ?cut" 1 exampleTurnWorld]
      continuation_token_follows_completed_event [of "exampleTurnEnv CreateThrows" 1 exampleTurnWorld]
    by (auto simp: exampleTurn_stream)
qed

theorem continuation_token_counterexample:
  "\<not> isl (generateAiResponse
            (exampleTurnEnv (Stream [ResponseCreated ''resp_1'', ResponseCompleted []] EndOfStream))
            1 exampleTurnWorld) \<and>
   statusOf (projr (generateAiResponse
            (exampleTurnEnv (Stream [ResponseCreated ''resp_1'', ResponseCompleted []] EndOfStream))
            1 exampleTurnWorld)) 1 = Some Error \<and>
   lastResponseIdOf exampleTurnWorld 1 = None \<and>
   lastResponseIdOf (projr (generateAiResponse
            (exampleTurnEnv (Stream [ResponseCreated ''resp_1'', ResponseCompleted []] EndOfStream))
            1 exampleTurnWorld)) 1 = Some ''resp_1''"
  using generateAiResponse_with_provider
    [OF exampleTurn_stream(1)
       [of "Stream [ResponseCreated ''resp_1'', ResponseCompleted []] EndOfStream"]]
  by (auto simp: exampleTurn_stream trim_def)

subsection \<open>Submitting a turn with files\<close>

lemma filter_unique_of_distinct:
  "distinct (map openaiFileId ms) \<Longrightarrow>
   length (filter (\<lambda>m. openaiFileId m = k) ms) \<le> 1"
proof (induction ms)
  case Nil
  then show ?case by simp
next
  case (Cons m ms)
  have "filter (\<lambda>m. openaiFileId m = k) ms = []" if "openaiFileId m = k"
  proof -
    have "openaiFileId m \<notin> openaiFileId ` set ms" using Cons.prems by simp
    with that have "\<forall>x \<in> set ms. openaiFileId x \<noteq> k" by (metis imageI)
    then show ?thesis by (simp add: filter_empty_conv)
  qed
  with Cons show ?case by auto
qed

lemma createUserFileMapping_total:
  assumes "distinct (map openaiFileId (fileMessageMappings w))"
  shows "\<exists>w'. createUserFileMapping a t w = Inr w' \<and>
              distinct (map openaiFileId (fileMessageMappings w')) \<and>
              messages w' = messages w \<and> conversations w' = conversations w \<and>
              nextId w' = nextId w \<and> scheduled w' = scheduled w"
proof -
  let ?xs = "filter (\<lambda>m. openaiFileId m = cm_openaiFileId a) (fileMessageMappings w)"
  have le: "length ?xs \<le> 1" using assms by (rule filter_unique_of_distinct)
  show ?thesis
  proof (cases ?xs)
    case Nil
    then have "cm_openaiFileId a \<notin> set (map openaiFileId (fileMessageMappings w))"
      by (auto simp: filter_empty_conv)
    with Nil assms show ?thesis
      by (simp add: createUserFileMapping_def uniqueByOpenaiFileId_def)
  next
    case (Cons x xs)
    with le have "?xs = [x]" by simp
    with assms show ?thesis
      by (simp add: createUserFileMapping_def uniqueByOpenaiFileId_def)
  qed
qed

lemma createUserFileMappings_total:
  assumes "distinct (map openaiFileId (fileMessageMappings w))"
  shows "\<exists>w'. createUserFileMappings by c m fs t w = Inr w' \<and>
              distinct (map openaiFileId (fileMessageMappings w')) \<and>
              messages w' = messages w \<and> conversations w' = conversations w \<and>
              nextId w' = nextId w \<and> scheduled w' = scheduled w"
  using assms
proof (induction fs arbitrary: w)
  case Nil
  then show ?case by simp
next
  case (Cons f fs)
  let ?a = "\<lparr>cm_openaiFileId = fm_openaiFileId f, cm_fileName = fm_fileName f,
              cm_uploadedBy = by, cm_storageId = fm_storageId f,
              cm_fileMimeType = fm_fileMimeType f, cm_fileSize = fm_fileSize f,
              cm_firstUsedInConversationId = c, cm_firstUsedInMessageId = m\<rparr>"
  obtain w1 where s: "createUserFileMapping ?a t w = Inr w1"
    and d: "distinct (map openaiFileId (fileMessageMappings w1))"
    and k: "messages w1 = messages w" "conversations w1 = conversations w"
      "nextId w1 = nextId w" "scheduled w1 = scheduled w"
    using createUserFileMapping_total [OF Cons.prems, of ?a t] by blast
  show ?case
    using Cons.IH [OF d] s k by simp
qed

lemma uploadOne_effect:
  "length (uploadedOpenAIFileIds (uploadOne env vs cvs n i f st)) =
     length (uploadedOpenAIFileIds st) + (if fileFails env i f then 0 else 1) \<and>
   length (filter isFileFailure (us_errors (uploadOne env vs cvs n i f st))) =
     length (filter isFileFailure (us_errors st)) + (if fileFails env i f then 1 else 0) \<and>
   length (us_errors (uploadOne env vs cvs n i f st)) \<ge> length (us_errors st) +
     (if fileFails env i f then 1 else 0)"
  by (simp add: uploadOne_def fileFails_def pushError_def Let_def
      split: option.split sum.split)

lemma uploadLoop_effect:
  "length (uploadedOpenAIFileIds (uploadLoop env vs cvs n i fs st)) + failedFiles env i fs =
     length (uploadedOpenAIFileIds st) + length fs \<and>
   length (filter isFileFailure (us_errors (uploadLoop env vs cvs n i fs st))) =
     length (filter isFileFailure (us_errors st)) + failedFiles env i fs \<and>
   length (us_errors (uploadLoop env vs cvs n i fs st)) \<ge>
     length (us_errors st) + failedFiles env i fs"
proof (induction fs arbitrary: i st)
  case Nil
  then show ?case by simp
next
  case (Cons f fs)
  show ?case
    using Cons.IH [of "Suc i" "uploadOne env vs cvs n i f st"]
      uploadOne_effect [of env vs cvs n i f st]
    by (cases "fileFails env i f") simp_all
qed


lemma uploadPreconditions_ok:
  assumes "uploadPreconditions env args w = Inr (user, conv)"
  shows "conversations w (ua_conversationId args) = Some conv"
  using assms
  by (auto simp: uploadPreconditions_def getConversationFor_def
      split: sum.splits option.splits if_splits)

lemma ensureVectorStore_effect:
  assumes "conversations w (ua_conversationId args) = Some conv"
    and "ensureVectorStore env args conv w = (vs, cvs, errs, w1)"
  shows "conversations w1 (ua_conversationId args) \<noteq> None \<and> messages w1 = messages w \<and>
         nextId w1 = nextId w \<and> fileMessageMappings w1 = fileMessageMappings w \<and>
         scheduled w1 = scheduled w \<and> filter isFileFailure errs = [] \<and>
         (errs = [] \<or> errs = [VectorStoreCreateFailed])"
  using assms
  by (auto simp: ensureVectorStore_def updateConversationVectorStore_def
      split: if_splits option.splits)

lemma getFirstMessage_schedule_free:
  "scheduled (schedule j w) = scheduled w @ [j]" "messages (schedule j w) = messages w"
  by (simp_all add: schedule_def)

lemma finishUpload_success:
  assumes "conversations w1 (ua_conversationId args) \<noteq> None"
    and "distinct (map openaiFileId (fileMessageMappings w1))"
    and "\<not> (uploadedOpenAIFileIds st = [] \<and> length (ua_uploadedConvexFiles args) > 0 \<and>
            length (us_errors st) = length (ua_uploadedConvexFiles args))"
  shows "\<exists>w' m rest. finishUpload env args user st w1 =
             (Inr \<lparr>success = True, errors = us_errors st\<rparr>, w') \<and>
           messages w' (nextId w1) = Some m \<and> author m = User \<and>
           conversationId m = ua_conversationId args \<and> content m = ua_content args \<and>
           fileIds m = Some (uploadedOpenAIFileIds st) \<and>
           scheduled w' = scheduled w1 @ GenerateAiResponse 0 (ua_conversationId args) # rest"
proof -
  let ?cid = "ua_conversationId args"
  let ?sargs = "\<lparr>sv_conversationId = ua_conversationId args, sv_content = ua_content args,
                 sv_fileIds = Some (uploadedOpenAIFileIds st),
                 sv_uploadedFileNames = Some (originalFileNames st),
                 sv_uploadedFiles = Some (uploadedFilesMapping st),
                 sv_vectorStoreFileIds = Some (us_vectorStoreFileIds st),
                 sv_timezone = ua_timezone args, sv_webSearchEnabled = ua_webSearchEnabled args,
                 sv_model = ua_model args, sv_thinkingIntensity = ua_thinkingIntensity args\<rparr>"
  obtain c where c: "conversations w1 ?cid = Some c" using assms(1) by blast
  obtain w2 where s: "storeUserMessageWithVectorStore ?sargs (ue_storeNow env) w1 = Inr (nextId w1, w2)"
    and m2: "\<exists>m. messages w2 (nextId w1) = Some m \<and> author m = User \<and>
               conversationId m = ?cid \<and> content m = ua_content args \<and>
               fileIds m = Some (uploadedOpenAIFileIds st)"
    and k2: "fileMessageMappings w2 = fileMessageMappings w1" "scheduled w2 = scheduled w1"
    using c
    by (simp add: storeUserMessageWithVectorStore_def insertMessage_def patchUpdatedTime_def)
  let ?maps = "if length (uploadedOpenAIFileIds st) > 0
               then createUserFileMappings user (Some ?cid) (Some (nextId w1))
                      (fileMappingsOf st) (ue_mappingNow env) w2
               else Inr w2"
  have d2: "distinct (map openaiFileId (fileMessageMappings w2))"
    using assms(2) k2 by simp
  obtain w3 where s3: "?maps = Inr w3" and k3: "messages w3 = messages w2"
    "scheduled w3 = scheduled w2"
    using createUserFileMappings_total [OF d2, of user "Some ?cid" "Some (nextId w1)"
        "fileMappingsOf st" "ue_mappingNow env"]
    by (cases "length (uploadedOpenAIFileIds st) > 0") auto
  show ?thesis
    using assms(3) s s3 k3 k2 m2
    by (auto simp: finishUpload_def Let_def getFirstMessage_schedule_free)
qed

text \<open>What the call does once its checks have passed.\<close>

lemma uploadFileAndSendMessage_after_checks:
  assumes "uploadPreconditions env args w = Inr (user, conv)"
    and "distinct (map openaiFileId (fileMessageMappings w))"
  shows "if failedFiles env 0 (ua_uploadedConvexFiles args) < length (ua_uploadedConvexFiles args)
         then \<exists>errs w' m rest.
                uploadFileAndSendMessage env args w = (Inr \<lparr>success = True, errors = errs\<rparr>, w') \<and>
                length (filter isFileFailure errs) = failedFiles env 0 (ua_uploadedConvexFiles args) \<and>
                messages w' (nextId w) = Some m \<and> author m = User \<and>
                conversationId m = ua_conversationId args \<and> content m = ua_content args \<and>
                scheduled w' = scheduled w @ GenerateAiResponse 0 (ua_conversationId args) # rest
         else (case fst (uploadFileAndSendMessage env args w) of
                 Inl e \<Rightarrow> e = AllFilesFailed
               | Inr res \<Rightarrow> success res)"
proof -
  let ?files = "ua_uploadedConvexFiles args"
  let ?k = "failedFiles env 0 ?files"
  have c: "conversations w (ua_conversationId args) = Some conv"
    using assms(1) by (rule uploadPreconditions_ok)
  obtain vs cvs errs0 w1 where ev: "ensureVectorStore env args conv w = (vs, cvs, errs0, w1)"
    by (cases "ensureVectorStore env args conv w")
  note e = ensureVectorStore_effect [OF c ev]
  let ?init = "\<lparr>uploadedOpenAIFileIds = [], originalFileNames = [], us_vectorStoreFileIds = [],
               uploadedFilesMapping = [], us_errors = errs0\<rparr>"
  let ?st = "uploadLoop env vs cvs (length ?files) 0 ?files ?init"
  have st: "uploadedState env args conv w = ?st"
    using ev by (simp add: uploadedState_def)
  have run: "uploadFileAndSendMessage env args w = finishUpload env args user ?st w1"
    using assms(1) ev st by (simp add: uploadFileAndSendMessage_def)
  have l: "length (uploadedOpenAIFileIds ?st) + ?k = length ?files"
    "length (filter isFileFailure (us_errors ?st)) = ?k"
    using uploadLoop_effect [where env = env and vs = vs and cvs = cvs and n = "length ?files"
        and i = 0 and fs = ?files and st = ?init] e by simp_all
  have d1: "distinct (map openaiFileId (fileMessageMappings w1))"
    using assms(2) e by simp
  show ?thesis
  proof (cases "?k < length ?files")
    case True
    then have "uploadedOpenAIFileIds ?st \<noteq> []" using l(1) by auto
    then have nt: "\<not> (uploadedOpenAIFileIds ?st = [] \<and> length ?files > 0 \<and>
            length (us_errors ?st) = length ?files)" by simp
    from finishUpload_success [OF _ d1 nt, of env user] e
    obtain w' m rest where "finishUpload env args user ?st w1 =
             (Inr \<lparr>success = True, errors = us_errors ?st\<rparr>, w')"
      "messages w' (nextId w1) = Some m" "author m = User"
      "conversationId m = ua_conversationId args" "content m = ua_content args"
      "scheduled w' = scheduled w1 @ GenerateAiResponse 0 (ua_conversationId args) # rest"
      by blast
    then show ?thesis
      using True run l(2) e by auto
  next
    case False
    show ?thesis
    proof (cases "uploadedOpenAIFileIds ?st = [] \<and> length ?files > 0 \<and>
            length (us_errors ?st) = length ?files")
      case True
      then have "finishUpload env args user ?st w1 = (Inl AllFilesFailed, w1)"
        by (simp add: finishUpload_def)
      with False run show ?thesis by simp
    next
      case nt: False
      from finishUpload_success [OF _ d1 nt, of env user] e
      obtain w' where "finishUpload env args user ?st w1 =
             (Inr \<lparr>success = True, errors = us_errors ?st\<rparr>, w')"
        by blast
      with False run show ?thesis by simp
    qed
  qed
qed


lemma example_extensions:
  "isSupportedFileExtension ''pdf''" "\<not> isSupportedFileExtension ''exe''"
  "fileExtensionOf ''a.pdf'' = ''pdf''" "fileExtensionOf ''b.exe'' = ''exe''"
  by (simp_all add: isSupportedFileExtension_def fileExtensionOf_def toLowerCase_def
      toLowerChar_def SUPPORTED_FILE_TYPES_def)

text \<open>The checks before any file is touched, in their order, and what each of them throws.\<close>

lemma uploadPreconditions_checks:
  "(ue_auth env = None \<longrightarrow> uploadPreconditions env args w = Inl UserNotAuthenticated) \<and>
   (ue_auth env = Some user \<and> user \<notin> users w \<longrightarrow>
      uploadPreconditions env args w = Inl UserNotFound) \<and>
   (ue_auth env = Some user \<and> user \<in> users w \<longrightarrow>
      (ua_model args = Some mdl \<and> mdl \<noteq> [] \<and> \<not> isSupportedModel mdl \<longrightarrow>
         uploadPreconditions env args w = Inl (UnsupportedModel mdl)) \<and>
      (ua_model args = Some mdl \<and> isSupportedModel mdl \<and> ua_thinkingIntensity args \<noteq> None \<and>
       \<not> isThinkingModel mdl \<longrightarrow>
         uploadPreconditions env args w = Inl ThinkingIntensityNotAllowed) \<and>
      (ua_model args = None \<or> ua_model args = Some [] \<or>
       (ua_model args = Some mdl \<and> isSupportedModel mdl \<and>
        (ua_thinkingIntensity args = None \<or> isThinkingModel mdl)) \<longrightarrow>
         (conversations w (ua_conversationId args) = None \<longrightarrow>
            uploadPreconditions env args w = Inl ConversationNotFoundOrAccessDenied) \<and>
         (conversations w (ua_conversationId args) = Some conv \<and> userId conv \<noteq> user \<longrightarrow>
            uploadPreconditions env args w = Inl NotFound) \<and>
         (conversations w (ua_conversationId args) = Some conv \<and> userId conv = user \<longrightarrow>
            (length (ua_uploadedConvexFiles args) > 10 \<longrightarrow>
               uploadPreconditions env args w =
                 Inl (TooManyFiles (length (ua_uploadedConvexFiles args)))) \<and>
            (length (ua_uploadedConvexFiles args) \<le> 10 \<longrightarrow>
               uploadPreconditions env args w = Inr (user, conv)))))"
proof -
  have "\<not> isSupportedModel []"
    by (simp add: isSupportedModel_def SUPPORTED_MODELS_def)
  then show ?thesis
    by (auto simp: uploadPreconditions_def getLoggedInUser_def validateModel_def
        truthyOrUndefined_def getConversationFor_def MAX_FILES_def)
qed

text \<open>
  C10. The call throws, and writes nothing, when the caller is not logged in, when the
  model is not supported or a thinking intensity comes with a model that does not think,
  when the conversation is missing or owned by someone else, and when more than 10 files
  are supplied. When these checks pass and the index holds at most one entry for each
  file id: if at least one supplied file does not fail, the call returns success with a
  list of errors that has one file failure for each failed file, the user message is
  stored under the next id, and the AI response is scheduled; and the only error that
  the call throws is the one for all files having failed.
\<close>

theorem uploadFileAndSendMessage_partial_failure:
  "(ue_auth env = None \<longrightarrow>
      uploadFileAndSendMessage env args w = (Inl UserNotAuthenticated, w)) \<and>
   (ue_auth env = Some user \<and> user \<notin> users w \<longrightarrow>
      uploadFileAndSendMessage env args w = (Inl UserNotFound, w)) \<and>
   (ue_auth env = Some user \<and> user \<in> users w \<longrightarrow>
      (ua_model args = Some mdl \<and> mdl \<noteq> [] \<and> \<not> isSupportedModel mdl \<longrightarrow>
         uploadFileAndSendMessage env args w = (Inl (UnsupportedModel mdl), w)) \<and>
      (ua_model args = Some mdl \<and> isSupportedModel mdl \<and> ua_thinkingIntensity args \<noteq> None \<and>
       \<not> isThinkingModel mdl \<longrightarrow>
         uploadFileAndSendMessage env args w = (Inl ThinkingIntensityNotAllowed, w)) \<and>
      (ua_model args = None \<or> ua_model args = Some [] \<or>
       (ua_model args = Some mdl \<and> isSupportedModel mdl \<and>
        (ua_thinkingIntensity args = None \<or> isThinkingModel mdl)) \<longrightarrow>
         (conversations w (ua_conversationId args) = None \<longrightarrow>
            uploadFileAndSendMessage env args w = (Inl ConversationNotFoundOrAccessDenied, w)) \<and>
         (conversations w (ua_conversationId args) = Some conv \<and> userId conv \<noteq> user \<longrightarrow>
            uploadFileAndSendMessage env args w = (Inl NotFound, w)) \<and>
         (conversations w (ua_conversationId args) = Some conv \<and> userId conv = user \<longrightarrow>
            (length (ua_uploadedConvexFiles args) > 10 \<longrightarrow>
               uploadFileAndSendMessage env args w =
                 (Inl (TooManyFiles (length (ua_uploadedConvexFiles args))), w)) \<and>
            (length (ua_uploadedConvexFiles args) \<le> 10 \<and>
             distinct (map openaiFileId (fileMessageMappings w)) \<longrightarrow>
               (if failedFiles env 0 (ua_uploadedConvexFiles args) <
                   length (ua_uploadedConvexFiles args)
                then \<exists>errs w' m rest.
                       uploadFileAndSendMessage env args w =
                         (Inr \<lparr>success = True, errors = errs\<rparr>, w') \<and>
                       length (filter isFileFailure errs) =
                         failedFiles env 0 (ua_uploadedConvexFiles args) \<and>
                       messages w' (nextId w) = Some m \<and> author m = User \<and>
                       conversationId m = ua_conversationId args \<and>
                       content m = ua_content args \<and>
                       scheduled w' =
                         scheduled w @ GenerateAiResponse 0 (ua_conversationId args) # rest
                else (case fst (uploadFileAndSendMessage env args w) of
                        Inl e \<Rightarrow> e = AllFilesFailed
                      | Inr res \<Rightarrow> success res))))))"
proof -
  note p = uploadPreconditions_checks [of env args w user mdl conv]
  have thrown: "uploadPreconditions env args w = Inl e \<Longrightarrow>
                uploadFileAndSendMessage env args w = (Inl e, w)" for e
    by (simp add: uploadFileAndSendMessage_def)
  have passed: "uploadPreconditions env args w = Inr (user, conv) \<Longrightarrow>
                distinct (map openaiFileId (fileMessageMappings w)) \<Longrightarrow>
                (if failedFiles env 0 (ua_uploadedConvexFiles args) <
                    length (ua_uploadedConvexFiles args)
                 then \<exists>errs w' m rest.
                        uploadFileAndSendMessage env args w =
                          (Inr \<lparr>success = True, errors = errs\<rparr>, w') \<and>
                        length (filter isFileFailure errs) =
                          failedFiles env 0 (ua_uploadedConvexFiles args) \<and>
                        messages w' (nextId w) = Some m \<and> author m = User \<and>
                        conversationId m = ua_conversationId args \<and>
                        content m = ua_content args \<and>
                        scheduled w' =
                          scheduled w @ GenerateAiResponse 0 (ua_conversationId args) # rest
                 else (case fst (uploadFileAndSendMessage env args w) of
                         Inl e \<Rightarrow> e = AllFilesFailed
                       | Inr res \<Rightarrow> success res))"
    by (rule uploadFileAndSendMessage_after_checks)
  show ?thesis
  proof (intro conjI impI, goal_cases)
    case 1
    with p thrown show ?case by blast
  next
    case 2
    with p thrown show ?case by blast
  next
    case 3
    with p thrown show ?case by blast
  next
    case 4
    with p thrown show ?case by blast
  next
    case 5
    with p thrown show ?case by blast
  next
    case 6
    with p thrown show ?case by blast
  next
    case 7
    with p thrown show ?case by blast
  next
    case 8
    with p have pre: "uploadPreconditions env args w = Inr (user, conv)" by blast
    from 8 have d: "distinct (map openaiFileId (fileMessageMappings w))" by simp
    show ?case using pre d by (rule passed)
  qed
qed

theorem uploadFileAndSendMessage_partial_failure_witness:
  "failedFiles (exampleUploadEnv (Some ''vs_1'')) 0
     [\<lparr>cf_storageId = 4, cf_fileName = ''a.pdf''\<rparr>, \<lparr>cf_storageId = 5, cf_fileName = ''b.exe''\<rparr>] = 1 \<and>
   \<not> isl (fst (uploadFileAndSendMessage (exampleUploadEnv (Some ''vs_1''))
     (exampleUploadArgs [\<lparr>cf_storageId = 4, cf_fileName = ''a.pdf''\<rparr>,
                         \<lparr>cf_storageId = 5, cf_fileName = ''b.exe''\<rparr>]) exampleTurnWorld)) \<and>
   success (projr (fst (uploadFileAndSendMessage (exampleUploadEnv (Some ''vs_1''))
     (exampleUploadArgs [\<lparr>cf_storageId = 4, cf_fileName = ''a.pdf''\<rparr>,
                         \<lparr>cf_storageId = 5, cf_fileName = ''b.exe''\<rparr>]) exampleTurnWorld))) \<and>
   length (filter isFileFailure (errors (projr (fst (uploadFileAndSendMessage
     (exampleUploadEnv (Some ''vs_1''))
     (exampleUploadArgs [\<lparr>cf_storageId = 4, cf_fileName = ''a.pdf''\<rparr>,
                         \<lparr>cf_storageId = 5, cf_fileName = ''b.exe''\<rparr>]) exampleTurnWorld))))) = 1 \<and>
   map_option content (messages (snd (uploadFileAndSendMessage (exampleUploadEnv (Some ''vs_1''))
     (exampleUploadArgs [\<lparr>cf_storageId = 4, cf_fileName = ''a.pdf''\<rparr>,
                         \<lparr>cf_storageId = 5, cf_fileName = ''b.exe''\<rparr>]) exampleTurnWorld)) 1) =
     Some ''Read this'' \<and>
   GenerateAiResponse 0 1 \<in> set (scheduled (snd (uploadFileAndSendMessage
     (exampleUploadEnv (Some ''vs_1''))
     (exampleUploadArgs [\<lparr>cf_storageId = 4, cf_fileName = ''a.pdf''\<rparr>,
                         \<lparr>cf_storageId = 5, cf_fileName = ''b.exe''\<rparr>]) exampleTurnWorld))) \<and>
   uploadFileAndSendMessage ((exampleUploadEnv (Some ''vs_1''))\<lparr>ue_auth := None\<rparr>)
     (exampleUploadArgs [\<lparr>cf_storageId = 4, cf_fileName = ''a.pdf''\<rparr>]) exampleTurnWorld =
     (Inl UserNotAuthenticated, exampleTurnWorld) \<and>
   uploadFileAndSendMessage ((exampleUploadEnv (Some ''vs_1''))\<lparr>ue_auth := Some 5\<rparr>)
     (exampleUploadArgs [\<lparr>cf_storageId = 4, cf_fileName = ''a.pdf''\<rparr>]) exampleTurnWorld =
     (Inl UserNotFound, exampleTurnWorld) \<and>
   uploadFileAndSendMessage (exampleUploadEnv (Some ''vs_1''))
     ((exampleUploadArgs [\<lparr>cf_storageId = 4, cf_fileName = ''a.pdf''\<rparr>])\<lparr>ua_model := Some ''gpt-5''\<rparr>)
     exampleTurnWorld = (Inl (UnsupportedModel ''gpt-5''), exampleTurnWorld) \<and>
   uploadFileAndSendMessage (exampleUploadEnv (Some ''vs_1''))
     ((exampleUploadArgs [\<lparr>cf_storageId = 4, cf_fileName = ''a.pdf''\<rparr>])
        \<lparr>ua_model := Some ''gpt-4.1'', ua_thinkingIntensity := Some High\<rparr>)
     exampleTurnWorld = (Inl ThinkingIntensityNotAllowed, exampleTurnWorld) \<and>
   uploadFileAndSendMessage (exampleUploadEnv (Some ''vs_1''))
     ((exampleUploadArgs [\<lparr>cf_storageId = 4, cf_fileName = ''a.pdf''\<rparr>])\<lparr>ua_conversationId := 99\<rparr>)
     exampleTurnWorld = (Inl ConversationNotFoundOrAccessDenied, exampleTurnWorld) \<and>
   uploadFileAndSendMessage ((exampleUploadEnv (Some ''vs_1''))\<lparr>ue_auth := Some 2\<rparr>)
     (exampleUploadArgs [\<lparr>cf_storageId = 4, cf_fileName = ''a.pdf''\<rparr>]) exampleTurnWorld =
     (Inl NotFound, exampleTurnWorld) \<and>
   uploadFileAndSendMessage (exampleUploadEnv (Some ''vs_1''))
     (exampleUploadArgs (replicate 11 \<lparr>cf_storageId = 4, cf_fileName = ''a.pdf''\<rparr>))
     exampleTurnWorld = (Inl (TooManyFiles 11), exampleTurnWorld)"
proof -
  let ?env = "exampleUploadEnv (Some ''vs_1'')"
  let ?a = "\<lparr>cf_storageId = 4, cf_fileName = ''a.pdf''\<rparr>"
  let ?fs = "[\<lparr>cf_storageId = 4, cf_fileName = ''a.pdf''\<rparr>, \<lparr>cf_storageId = 5, cf_fileName = ''b.exe''\<rparr>]"
  have k: "failedFiles ?env 0 ?fs = 1"
    by (simp add: fileFails_def example_extensions exampleUploadEnv_def MAX_FILE_SIZE_def)
  have e: "ue_auth (exampleUploadEnv vs) = Some 1" "users exampleTurnWorld = {1, 2}"
    "ua_model (exampleUploadArgs fs) = None" "ua_thinkingIntensity (exampleUploadArgs fs) = None"
    "ua_conversationId (exampleUploadArgs fs) = 1" "ua_uploadedConvexFiles (exampleUploadArgs fs) = fs"
    "ua_content (exampleUploadArgs fs) = ''Read this''"
    "conversations exampleTurnWorld 1 = Some exampleConversation"
    "conversations exampleTurnWorld (Suc 0) = Some exampleConversation"
    "conversations exampleTurnWorld 99 = None" "userId exampleConversation = 1"
    "fileMessageMappings exampleTurnWorld = []" "nextId exampleTurnWorld = 1"
    "\<not> isSupportedModel ''gpt-5''" "isSupportedModel ''gpt-4.1''" "\<not> isThinkingModel ''gpt-4.1''"
    for vs fs
    by (simp_all add: exampleUploadEnv_def exampleUploadArgs_def exampleTurnWorld_def
        exampleConversation_def isSupportedModel_def isThinkingModel_def SUPPORTED_MODELS_def
        THINKING_MODELS_def)
  have main: "\<exists>errs w' m rest.
       uploadFileAndSendMessage ?env (exampleUploadArgs ?fs) exampleTurnWorld =
         (Inr \<lparr>success = True, errors = errs\<rparr>, w') \<and>
       length (filter isFileFailure errs) = 1 \<and>
       messages w' 1 = Some m \<and> content m = ''Read this'' \<and>
       scheduled w' = GenerateAiResponse 0 1 # rest"
    using k uploadFileAndSendMessage_partial_failure
      [where env = ?env and args = "exampleUploadArgs ?fs" and w = exampleTurnWorld
         and user = 1 and conv = exampleConversation]
    by (auto simp: e exampleTurnWorld_def)
  have t1: "uploadFileAndSendMessage (?env\<lparr>ue_auth := None\<rparr>) (exampleUploadArgs [?a])
              exampleTurnWorld = (Inl UserNotAuthenticated, exampleTurnWorld)"
    using uploadFileAndSendMessage_partial_failure
      [where env = "?env\<lparr>ue_auth := None\<rparr>" and args = "exampleUploadArgs [?a]"
         and w = exampleTurnWorld]
    by simp
  have t2: "uploadFileAndSendMessage (?env\<lparr>ue_auth := Some 5\<rparr>) (exampleUploadArgs [?a])
              exampleTurnWorld = (Inl UserNotFound, exampleTurnWorld)"
    using uploadFileAndSendMessage_partial_failure
      [where env = "?env\<lparr>ue_auth := Some 5\<rparr>" and args = "exampleUploadArgs [?a]"
         and w = exampleTurnWorld and user = 5]
    by (simp add: e)
  have t3: "uploadFileAndSendMessage ?env ((exampleUploadArgs [?a])\<lparr>ua_model := Some ''gpt-5''\<rparr>)
              exampleTurnWorld = (Inl (UnsupportedModel ''gpt-5''), exampleTurnWorld)"
    using uploadFileAndSendMessage_partial_failure
      [where env = ?env and args = "(exampleUploadArgs [?a])\<lparr>ua_model := Some ''gpt-5''\<rparr>"
         and w = exampleTurnWorld and user = 1 and mdl = "''gpt-5''"]
    by (simp add: e)
  have t4: "uploadFileAndSendMessage ?env
              ((exampleUploadArgs [?a])\<lparr>ua_model := Some ''gpt-4.1'', ua_thinkingIntensity := Some High\<rparr>)
              exampleTurnWorld = (Inl ThinkingIntensityNotAllowed, exampleTurnWorld)"
    using uploadFileAndSendMessage_partial_failure
      [where env = ?env
         and args = "(exampleUploadArgs [?a])\<lparr>ua_model := Some ''gpt-4.1'', ua_thinkingIntensity := Some High\<rparr>"
         and w = exampleTurnWorld and user = 1 and mdl = "''gpt-4.1''"]
    by (simp add: e)
  have t5: "uploadFileAndSendMessage ?env ((exampleUploadArgs [?a])\<lparr>ua_conversationId := 99\<rparr>)
              exampleTurnWorld = (Inl ConversationNotFoundOrAccessDenied, exampleTurnWorld)"
    using uploadFileAndSendMessage_partial_failure
      [where env = ?env and args = "(exampleUploadArgs [?a])\<lparr>ua_conversationId := 99\<rparr>"
         and w = exampleTurnWorld and user = 1]
    by (simp add: e)
  have t6: "uploadFileAndSendMessage (?env\<lparr>ue_auth := Some 2\<rparr>) (exampleUploadArgs [?a])
              exampleTurnWorld = (Inl NotFound, exampleTurnWorld)"
    using uploadFileAndSendMessage_partial_failure
      [where env = "?env\<lparr>ue_auth := Some 2\<rparr>" and args = "exampleUploadArgs [?a]"
         and w = exampleTurnWorld and user = 2 and conv = exampleConversation]
    by (simp add: e)
  have t7: "uploadFileAndSendMessage ?env (exampleUploadArgs (replicate 11 ?a))
              exampleTurnWorld = (Inl (TooManyFiles 11), exampleTurnWorld)"
    using uploadFileAndSendMessage_partial_failure
      [where env = ?env and args = "exampleUploadArgs (replicate 11 ?a)"
         and w = exampleTurnWorld and user = 1 and conv = exampleConversation]
    by (simp add: e)
  from main obtain errs w' m rest where r:
    "uploadFileAndSendMessage ?env (exampleUploadArgs ?fs) exampleTurnWorld =
         (Inr \<lparr>success = True, errors = errs\<rparr>, w')"
    "length (filter isFileFailure errs) = 1" "messages w' 1 = Some m" "content m = ''Read this''"
    "scheduled w' = GenerateAiResponse 0 1 # rest"
    by blast
  show ?thesis
    unfolding r(1)
    using k t1 t2 t3 t4 t5 t6 t7 r(2-5) by (simp del: failedFiles.simps One_nat_def)
qed

theorem uploadFileAndSendMessage_counterexample:
  "failedFiles (exampleUploadEnv (Some ''vs_1'')) 0
     (replicate 11 \<lparr>cf_storageId = 4, cf_fileName = ''a.pdf''\<rparr>) = 0 \<and>
   fst (uploadFileAndSendMessage (exampleUploadEnv (Some ''vs_1''))
     (exampleUploadArgs (replicate 11 \<lparr>cf_storageId = 4, cf_fileName = ''a.pdf''\<rparr>))
     exampleTurnWorld) = Inl (TooManyFiles 11) \<and>
   failedFiles (exampleUploadEnv None) 0 [\<lparr>cf_storageId = 4, cf_fileName = ''a.pdf''\<rparr>] = 0 \<and>
   fst (uploadFileAndSendMessage (exampleUploadEnv None)
     (exampleUploadArgs [\<lparr>cf_storageId = 4, cf_fileName = ''a.pdf''\<rparr>]) exampleTurnWorld) =
     Inr \<lparr>success = True, errors = [VectorStoreCreateFailed, NotSearchable ''a.pdf'']\<rparr>"
proof -
  have ok: "\<not> fileFails (exampleUploadEnv vs) i \<lparr>cf_storageId = 4, cf_fileName = ''a.pdf''\<rparr>" for vs i
    by (simp add: fileFails_def example_extensions exampleUploadEnv_def MAX_FILE_SIZE_def)
  have none: "failedFiles (exampleUploadEnv vs) i
                (replicate k \<lparr>cf_storageId = 4, cf_fileName = ''a.pdf''\<rparr>) = 0" for vs i k
    by (induction k arbitrary: i) (simp_all add: ok)
  have many: "fst (uploadFileAndSendMessage (exampleUploadEnv (Some ''vs_1''))
     (exampleUploadArgs (replicate 11 \<lparr>cf_storageId = 4, cf_fileName = ''a.pdf''\<rparr>))
     exampleTurnWorld) = Inl (TooManyFiles 11)"
    by (simp add: uploadFileAndSendMessage_def uploadPreconditions_def getLoggedInUser_def
        validateModel_def truthyOrUndefined_def getConversationFor_def exampleUploadEnv_def
        exampleUploadArgs_def exampleTurnWorld_def exampleConversation_def MAX_FILES_def)
  have one: "fst (uploadFileAndSendMessage (exampleUploadEnv None)
     (exampleUploadArgs [\<lparr>cf_storageId = 4, cf_fileName = ''a.pdf''\<rparr>]) exampleTurnWorld) =
     Inr \<lparr>success = True, errors = [VectorStoreCreateFailed, NotSearchable ''a.pdf'']\<rparr>"
    by (simp add: uploadFileAndSendMessage_def uploadPreconditions_def getLoggedInUser_def
        validateModel_def getConversationFor_def MAX_FILES_def uploadedState_def
        ensureVectorStore_def getFirstMessage_def messagesOf_def trim_def isWhiteSpace_def uploadOne_def example_extensions finishUpload_def
        storeUserMessageWithVectorStore_def insertMessage_def patchUpdatedTime_def
        createUserFileMapping_def uniqueByOpenaiFileId_def fileMappingsOf_def pushError_def
        truthyOrUndefined_def exampleUploadEnv_def exampleUploadArgs_def exampleTurnWorld_def
        exampleConversation_def MAX_FILE_SIZE_def Let_def schedule_def)
  show ?thesis
    using none [of "Some ''vs_1''" 0 11] none [of None 0 1] many one by simp
qed

end
